theory Spec2Isabelle
  imports Main "HOL-Library.Word" "HOL-Library.Sublist"
begin

section \<open>The graphics device and the environment\<close>

text \<open>
  The library talks to three external collaborators: the OpenGL device, the SOIL image
  decoder and the Assimp importer. The device and the decoder are modelled by the trace
  of the calls the program issues, in order, with the argument values the program
  passes. Object names returned by \<open>glGen*\<close> are taken from a counter, so that every
  name handed out is fresh and different from 0. Container sizes and loop counters are
  natural numbers; \<open>std::size_t\<close> arithmetic, which only the attribute installer does, is
  on 64-bit words. The count of a draw call is a \<open>GLsizei\<close>, a 32-bit signed integer:
  the \<open>std::size_t\<close> count the mesh holds is converted at the call, and the trace holds
  the converted value. Every other argument is recorded as the value of its argument
  expression.
\<close>

type_synonym GLuint = nat
type_synonym GLenum = nat
type_synonym size_t = "64 word"
type_synonym GLsizei = int

text \<open>The implicit conversion of a \<open>std::size_t\<close> value to \<open>GLsizei\<close>: the low 32 bits, read
  as two's complement.\<close>

definition to_GLsizei :: "nat \<Rightarrow> GLsizei" where
  "to_GLsizei n = sint (of_nat n :: 32 word)"

definition GL_FALSE :: bool where "GL_FALSE = False"
definition GL_TRUE :: bool where "GL_TRUE = True"
definition GL_TRIANGLES :: GLenum where "GL_TRIANGLES = 0x0004"
definition GL_BYTE :: GLenum where "GL_BYTE = 0x1400"
definition GL_UNSIGNED_BYTE :: GLenum where "GL_UNSIGNED_BYTE = 0x1401"
definition GL_SHORT :: GLenum where "GL_SHORT = 0x1402"
definition GL_UNSIGNED_SHORT :: GLenum where "GL_UNSIGNED_SHORT = 0x1403"
definition GL_INT :: GLenum where "GL_INT = 0x1404"
definition GL_UNSIGNED_INT :: GLenum where "GL_UNSIGNED_INT = 0x1405"
definition GL_FLOAT :: GLenum where "GL_FLOAT = 0x1406"
definition GL_DOUBLE :: GLenum where "GL_DOUBLE = 0x140A"
definition GL_TEXTURE_2D :: GLenum where "GL_TEXTURE_2D = 0x0DE1"
definition GL_RGB :: GLenum where "GL_RGB = 0x1907"
definition GL_LINEAR :: GLenum where "GL_LINEAR = 0x2601"
definition GL_NEAREST_MIPMAP_LINEAR :: GLenum where "GL_NEAREST_MIPMAP_LINEAR = 0x2702"
definition GL_TEXTURE_MAG_FILTER :: GLenum where "GL_TEXTURE_MAG_FILTER = 0x2800"
definition GL_TEXTURE_MIN_FILTER :: GLenum where "GL_TEXTURE_MIN_FILTER = 0x2801"
definition GL_TEXTURE_WRAP_S :: GLenum where "GL_TEXTURE_WRAP_S = 0x2802"
definition GL_TEXTURE_WRAP_T :: GLenum where "GL_TEXTURE_WRAP_T = 0x2803"
definition GL_REPEAT :: GLenum where "GL_REPEAT = 0x2901"
definition GL_TEXTURE0 :: GLenum where "GL_TEXTURE0 = 0x84C0"
definition GL_ARRAY_BUFFER :: GLenum where "GL_ARRAY_BUFFER = 0x8892"
definition GL_ELEMENT_ARRAY_BUFFER :: GLenum where "GL_ELEMENT_ARRAY_BUFFER = 0x8893"
definition GL_STATIC_DRAW :: GLenum where "GL_STATIC_DRAW = 0x88E4"

text \<open>
  One constructor per device or decoder entry point the library calls. \<open>glGen*\<close> carry
  the name the device returned. \<open>glBufferData\<close> carries target, size in bytes and usage;
  \<open>glVertexAttribPointer\<close> carries index, size, type, normalized, stride and pointer;
  \<open>glUniform1i\<close> carries the program handle and the uniform name whose location is
  queried, and the value; \<open>glDrawElements\<close> carries mode, count and index type;
  \<open>glDrawArrays\<close> carries mode, first and count.
\<close>

datatype gl_call =
    glGenVertexArrays GLuint
  | glBindVertexArray GLuint
  | glGenBuffers GLuint
  | glBindBuffer GLenum GLuint
  | glBufferData GLenum nat GLenum
  | glVertexAttribPointer nat nat GLenum bool size_t size_t
  | glEnableVertexAttribArray nat
  | glGenTextures GLuint
  | glBindTexture GLenum GLuint
  | glTexParameteri GLenum GLenum GLenum
  | SOIL_load_image string
  | glTexImage2D GLenum GLenum
  | glGenerateMipmap GLenum
  | SOIL_free_image_data
  | glActiveTexture GLenum
  | glUniform1i GLuint string nat
  | glDrawElements GLenum GLsizei GLenum
  | glDrawArrays GLenum nat GLsizei

fun is_draw :: "gl_call \<Rightarrow> bool" where
  "is_draw (glDrawElements mode count type) = True"
| "is_draw (glDrawArrays mode first count) = True"
| "is_draw c = False"

fun image_load :: "gl_call \<Rightarrow> string list" where
  "image_load (SOIL_load_image path) = [path]"
| "image_load c = []"

definition image_loads :: "gl_call list \<Rightarrow> string list" where
  "image_loads cs = concat (map image_load cs)"

section \<open>utils.h: path strings\<close>

definition PATH_SEPARATOR :: char where
  "PATH_SEPARATOR = CHR ''/''"

definition path_delims :: string where
  "path_delims = [CHR ''/'', CHR 0x5C]"

text \<open>\<open>std::string::find_last_of\<close>: searching from the end, the position of the first
  character found that is one of the delimiters, \<open>None\<close> for \<open>npos\<close>.\<close>

definition find_last_of :: "string \<Rightarrow> string \<Rightarrow> nat option" where
  "find_last_of s delims =
     (case dropWhile (\<lambda>c. c \<notin> set delims) (rev s) of
        [] \<Rightarrow> None
      | c # rest \<Rightarrow> Some (length rest))"

definition join :: "string \<Rightarrow> string \<Rightarrow> string" where
  "join base path = base @ [PATH_SEPARATOR] @ path"

text \<open>\<open>substr(0, npos)\<close> is the whole string; \<open>npos + 1\<close> wraps to 0, so \<open>substr(npos + 1)\<close>
  is the whole string too.\<close>

definition dirname :: "string \<Rightarrow> string" where
  "dirname path =
     (case find_last_of path path_delims of None \<Rightarrow> path | Some p \<Rightarrow> take p path)"

definition basename :: "string \<Rightarrow> string" where
  "basename path =
     (case find_last_of path path_delims of None \<Rightarrow> path | Some p \<Rightarrow> drop (p + 1) path)"

definition noextension :: "string \<Rightarrow> string" where
  "noextension filename =
     (case find_last_of filename [CHR ''.''] of
        None \<Rightarrow> filename
      | Some p \<Rightarrow> if p > 0 then take p filename else filename)"

section \<open>vertices.h: attributes and the attribute installer\<close>

text \<open>
  An attribute class exposes the enumerators \<open>size\<close>, \<open>type\<close> and \<open>normalized\<close>.
  The installer also uses \<open>sizeof(TAttribute::type)\<close>: the size of the expression
  \<open>TAttribute::type\<close>, an enumerator of the attribute's anonymous enumeration. It is a
  constant of the compiled attribute class (4 on the usual ABIs, whatever the value of
  \<open>type\<close>), so it is a field here.
\<close>

record attribute =
  attr_size :: nat
  attr_type :: GLenum
  attr_normalized :: bool
  sizeof_attr_type :: nat

text \<open>
  A vertex class \<open>Vertex<Attrs...>\<close>: its attribute pack, and \<open>sizeof(TVertex)\<close>, which the
  compiler fixes from the data members of the attribute classes, not from their
  enumerators.
\<close>

record vertex_class =
  attributes :: "attribute list"
  sizeof_TVertex :: size_t

definition Position :: attribute where
  "Position = \<lparr>attr_size = 3, attr_type = GL_FLOAT, attr_normalized = GL_FALSE,
     sizeof_attr_type = 4\<rparr>"

definition Normal :: attribute where
  "Normal = \<lparr>attr_size = 3, attr_type = GL_FLOAT, attr_normalized = GL_FALSE,
     sizeof_attr_type = 4\<rparr>"

definition TextureCoordinate :: attribute where
  "TextureCoordinate = \<lparr>attr_size = 2, attr_type = GL_FLOAT, attr_normalized = GL_FALSE,
     sizeof_attr_type = 4\<rparr>"

text \<open>\<open>DefaultVertex\<close> holds two \<open>glm::vec3\<close> and one \<open>glm::vec2\<close>: 32 bytes.\<close>

definition DefaultVertex :: vertex_class where
  "DefaultVertex = \<lparr>attributes = [Position, Normal, TextureCoordinate], sizeof_TVertex = 32\<rparr>"

definition data_size :: "attribute \<Rightarrow> size_t" where
  "data_size a = of_nat (attr_size a) * of_nat (sizeof_attr_type a)"

text \<open>\<open>VertexAttributeInstaller<TAttribute>::operator()\<close>: the calls issued and the offset
  it leaves in the reference parameter.\<close>

definition VertexAttributeInstaller ::
  "attribute \<Rightarrow> size_t \<Rightarrow> size_t \<Rightarrow> nat \<Rightarrow> gl_call list \<times> size_t" where
  "VertexAttributeInstaller a stride offset layout_position =
     ([glVertexAttribPointer layout_position (attr_size a) (attr_type a) (attr_normalized a)
         stride offset,
       glEnableVertexAttribArray layout_position],
      offset + data_size a)"

text \<open>The pack expansion inside the braced initialiser list of \<open>add_each\<close>: one installer
  per layout position, evaluated left to right.\<close>

fun add_each_expand ::
  "attribute list \<Rightarrow> size_t \<Rightarrow> size_t \<Rightarrow> nat \<Rightarrow> gl_call list \<times> size_t" where
  "add_each_expand [] stride offset layout_position = ([], offset)"
| "add_each_expand (a # as) stride offset layout_position =
     (let (cs, offset1) = VertexAttributeInstaller a stride offset layout_position;
          (cs', offset2) = add_each_expand as stride offset1 (Suc layout_position)
      in (cs @ cs', offset2))"

definition add_each :: "vertex_class \<Rightarrow> gl_call list" where
  "add_each TVertex = fst (add_each_expand (attributes TVertex) (sizeof_TVertex TVertex) 0 0)"

text \<open>
  The layout as the specification words it, for a given stride: the size of an attribute
  is its component count times the byte size of its component type, and the attribute at
  layout position \<open>k\<close> starts at the sum of the sizes of the attributes before it. The
  byte sizes are those of the OpenGL component types (0 for a value that names none).
\<close>

definition component_byte_size :: "GLenum \<Rightarrow> nat" where
  "component_byte_size type =
     (if type = GL_BYTE \<or> type = GL_UNSIGNED_BYTE then 1
      else if type = GL_SHORT \<or> type = GL_UNSIGNED_SHORT then 2
      else if type = GL_INT \<or> type = GL_UNSIGNED_INT \<or> type = GL_FLOAT then 4
      else if type = GL_DOUBLE then 8
      else 0)"

definition attribute_size :: "attribute \<Rightarrow> size_t" where
  "attribute_size a = of_nat (attr_size a) * of_nat (component_byte_size (attr_type a))"

definition layout_size :: "attribute list \<Rightarrow> size_t" where
  "layout_size as = sum_list (map attribute_size as)"

text \<open>
  The installer takes the byte size of a component from \<open>sizeof(TAttribute::type)\<close>. An
  attribute is measured when that is the byte size of its component type.
\<close>

definition measured :: "attribute \<Rightarrow> bool" where
  "measured a \<longleftrightarrow> sizeof_attr_type a = component_byte_size (attr_type a)"

definition packed_layout :: "size_t \<Rightarrow> attribute list \<Rightarrow> gl_call list" where
  "packed_layout stride as =
     concat (map (\<lambda>k. [glVertexAttribPointer k (attr_size (as ! k)) (attr_type (as ! k))
                           (attr_normalized (as ! k)) stride (layout_size (take k as)),
                         glEnableVertexAttribArray k])
                 [0..<length as])"

section \<open>textures.h: Texture2D\<close>

record Texture2D =
  m_name :: string
  m_path :: string
  m_min_filter :: GLenum
  m_mag_filter :: GLenum
  m_wrap_s :: GLenum
  m_wrap_t :: GLenum
  m_generate_mipmap :: bool
  m_handle :: GLuint

text \<open>
  The constructor, called with the defaults for the filter and wrap parameters. The member
  \<open>m_generate_mipmap\<close> is initialised from itself, so it holds whatever the storage
  held: the last argument stands for that value.
\<close>

definition Texture2D_ctor :: "string \<Rightarrow> string \<Rightarrow> bool \<Rightarrow> Texture2D" where
  "Texture2D_ctor path name garbage =
     \<lparr>m_name = (if name = [] then noextension (basename path) else name),
      m_path = path,
      m_min_filter = GL_NEAREST_MIPMAP_LINEAR,
      m_mag_filter = GL_LINEAR,
      m_wrap_s = GL_REPEAT,
      m_wrap_t = GL_REPEAT,
      m_generate_mipmap = garbage,
      m_handle = 0\<rparr>"

section \<open>The imported scene\<close>

text \<open>
  What the library reads of an Assimp scene. A face is its list of vertex indices; a
  material answers \<open>GetTextureCount(type)\<close> and \<open>GetTexture(type, i)\<close> from the list of
  paths it holds for the type.
\<close>

datatype aiNode = aiNode (mMeshes_node: "nat list") (mChildren: "aiNode list")

record aiMesh =
  mNumVertices :: nat
  mFaces :: "GLuint list list"
  mMaterialIndex :: nat

datatype aiTextureType = aiTextureType_DIFFUSE | aiTextureType_SPECULAR

record aiMaterial =
  diffuse :: "string list"
  specular :: "string list"

fun GetTextures :: "aiMaterial \<Rightarrow> aiTextureType \<Rightarrow> string list" where
  "GetTextures material aiTextureType_DIFFUSE = diffuse material"
| "GetTextures material aiTextureType_SPECULAR = specular material"

record aiScene =
  mFlags :: nat
  mRootNode :: "aiNode option"
  mMeshes :: "aiMesh list"
  mMaterials :: "aiMaterial list"

definition AI_SCENE_FLAGS_INCOMPLETE :: nat where
  "AI_SCENE_FLAGS_INCOMPLETE = 1"

section \<open>The world the library runs in\<close>

text \<open>
  \<open>calls\<close> is the trace of device and decoder calls; \<open>fresh\<close> the last object name the
  device handed out; \<open>heap\<close> the \<open>Texture2D\<close> objects allocated by \<open>std::make_shared\<close>,
  a \<open>shared_ptr\<close> being the index of its object; \<open>indeterminate\<close> the value an
  uninitialised \<open>bool\<close> is read as; \<open>ReadFile\<close> what the importer returns for a path
  (\<open>None\<close> for a null scene).
\<close>

type_synonym tex_ptr = nat

record world =
  calls :: "gl_call list"
  fresh :: GLuint
  heap :: "Texture2D list"
  indeterminate :: bool
  ReadFile :: "string \<Rightarrow> aiScene option"

definition emit :: "gl_call list \<Rightarrow> world \<Rightarrow> world" where
  "emit cs w = w\<lparr>calls := calls w @ cs\<rparr>"

definition glGen :: "world \<Rightarrow> GLuint \<times> world" where
  "glGen w = (Suc (fresh w), w\<lparr>fresh := Suc (fresh w)\<rparr>)"

definition make_shared :: "Texture2D \<Rightarrow> world \<Rightarrow> tex_ptr \<times> world" where
  "make_shared t w = (length (heap w), w\<lparr>heap := heap w @ [t]\<rparr>)"

definition Texture2D_load :: "Texture2D \<Rightarrow> world \<Rightarrow> Texture2D \<times> world" where
  "Texture2D_load t w =
     (let (h, w1) = glGen w;
          w2 = emit ([glGenTextures h,
                      glBindTexture GL_TEXTURE_2D h,
                      glTexParameteri GL_TEXTURE_2D GL_TEXTURE_WRAP_S (m_wrap_s t),
                      glTexParameteri GL_TEXTURE_2D GL_TEXTURE_WRAP_T (m_wrap_t t),
                      glTexParameteri GL_TEXTURE_2D GL_TEXTURE_MIN_FILTER (m_min_filter t),
                      glTexParameteri GL_TEXTURE_2D GL_TEXTURE_MAG_FILTER (m_mag_filter t),
                      SOIL_load_image (m_path t),
                      glTexImage2D GL_TEXTURE_2D GL_RGB]
                     @ (if m_generate_mipmap t then [glGenerateMipmap GL_TEXTURE_2D] else [])
                     @ [SOIL_free_image_data, glBindTexture GL_TEXTURE_2D 0]) w1
      in (t\<lparr>m_handle := h\<rparr>, w2))"

text \<open>\<open>instance->load()\<close> through a shared pointer: the object in the heap is updated.\<close>

definition instance_load :: "tex_ptr \<Rightarrow> world \<Rightarrow> world" where
  "instance_load p w =
     (let (t, w1) = Texture2D_load (heap w ! p) w in w1\<lparr>heap := (heap w1)[p := t]\<rparr>)"

definition Texture2D_bind :: "Texture2D \<Rightarrow> GLenum \<Rightarrow> gl_call list" where
  "Texture2D_bind t unit = [glActiveTexture unit, glBindTexture GL_TEXTURE_2D (m_handle t)]"

definition Texture2D_unbind :: "Texture2D \<Rightarrow> GLenum \<Rightarrow> gl_call list" where
  "Texture2D_unbind t unit = [glActiveTexture unit, glBindTexture GL_TEXTURE_2D 0]"

section \<open>Template arguments and exceptions\<close>

text \<open>
  \<open>Mesh\<close>, \<open>RawModel\<close> and \<open>AssetModel\<close> are templates. Of the vertex data type they
  use its \<open>sizeof\<close>, of the vertex layout its attribute pack and \<open>sizeof\<close>. Of the texture
  type they use the constructor and \<open>load\<close>; \<open>texture_raises\<close> holds the paths at which
  creating the instance raises (\<open>std::bad_alloc\<close> out of \<open>std::make_shared\<close>, or an
  exception of a texture type supplied by the user). \<open>Texture2D\<close> itself raises
  nothing.
\<close>

record template_args =
  sizeof_vertex_data :: nat
  vertex_layout :: vertex_class
  texture_raises :: "string \<Rightarrow> bool"

definition default_args :: template_args where
  "default_args = \<lparr>sizeof_vertex_data = 32, vertex_layout = DefaultVertex,
     texture_raises = (\<lambda>path. False)\<rparr>"

text \<open>
  \<open>model_error\<close> carries the path and the message. The source indexes \<open>scene->mMeshes\<close>
  and \<open>scene->mMaterials\<close> without a check; an index outside the array is undefined
  behaviour there, and an abort here.
\<close>

datatype exn =
    model_error string string
  | texture_exception string
  | undefined_behaviour

section \<open>meshes.h: Mesh\<close>

record Mesh =
  m_vao :: GLuint
  m_vbo :: GLuint
  m_ebo :: GLuint
  m_vertex_count :: nat
  m_index_count :: nat
  m_textures :: "tex_ptr list"

text \<open>The constructor. \<open>sizeof(GLuint)\<close> is 4.\<close>

definition Mesh_ctor ::
  "template_args \<Rightarrow> 'v list \<Rightarrow> GLuint list \<Rightarrow> tex_ptr list \<Rightarrow> world \<Rightarrow> Mesh \<times> world" where
  "Mesh_ctor T vertices indices textures w =
     (let vertex_count = length vertices;
          index_count = length indices;
          (vao, w1) = glGen w;
          w2 = emit [glGenVertexArrays vao, glBindVertexArray vao] w1;
          (vbo, w3) = glGen w2;
          w4 = emit [glGenBuffers vbo,
                     glBindBuffer GL_ARRAY_BUFFER vbo,
                     glBufferData GL_ARRAY_BUFFER (vertex_count * sizeof_vertex_data T)
                       GL_STATIC_DRAW] w3;
          (ebo, w6) =
            (if index_count > 0 then
               (let (ebo, w5) = glGen w4
                in (ebo, emit [glGenBuffers ebo,
                               glBindBuffer GL_ELEMENT_ARRAY_BUFFER ebo,
                               glBufferData GL_ELEMENT_ARRAY_BUFFER (index_count * 4)
                                 GL_STATIC_DRAW] w5))
             else (0, w4));
          w7 = emit (add_each (vertex_layout T)) w6;
          w8 = emit [glBindVertexArray 0] w7
      in (\<lparr>m_vao = vao, m_vbo = vbo, m_ebo = ebo, m_vertex_count = vertex_count,
           m_index_count = index_count, m_textures = textures\<rparr>, w8))"

text \<open>
  The defaulted move constructor moves member by member: the integers are copied, the
  vector of shared pointers is taken over and the source's vector is left empty. The
  result is the new \<open>Mesh\<close> and the moved-from one.
\<close>

definition Mesh_move :: "Mesh \<Rightarrow> Mesh \<times> Mesh" where
  "Mesh_move rhs = (rhs, rhs\<lparr>m_textures := []\<rparr>)"

text \<open>
  The defaulted destructor has no body: it issues no device call, and destroying the
  members releases the shares of the textures the \<open>Mesh\<close> holds. The result is the device
  calls issued for the handles and the shares released.
\<close>

definition Mesh_dtor :: "Mesh \<Rightarrow> gl_call list \<times> tex_ptr list" where
  "Mesh_dtor m = ([], m_textures m)"

text \<open>A program is its handle; \<open>set_uniform(name, GLint)\<close> is \<open>glUniform1i\<close> at the location
  of the name.\<close>

type_synonym program_type = GLuint

definition bind_textures :: "Mesh \<Rightarrow> program_type \<Rightarrow> world \<Rightarrow> world" where
  "bind_textures m program w =
     emit (concat (map (\<lambda>i. let texture = heap w ! (m_textures m ! i)
                              in Texture2D_bind texture (GL_TEXTURE0 + i)
                                 @ [glUniform1i program (m_name texture) i])
                       [0..<length (m_textures m)])) w"

definition draw_mesh :: "Mesh \<Rightarrow> world \<Rightarrow> world" where
  "draw_mesh m w =
     emit ([glBindVertexArray (m_vao m)]
           @ (if m_index_count m > 0
              then [glDrawElements GL_TRIANGLES (to_GLsizei (m_index_count m)) GL_UNSIGNED_INT]
              else [glDrawArrays GL_TRIANGLES 0 (to_GLsizei (m_vertex_count m))])
           @ [glBindVertexArray 0]) w"

definition unbind_textures :: "Mesh \<Rightarrow> world \<Rightarrow> world" where
  "unbind_textures m w =
     emit (concat (map (\<lambda>i. Texture2D_unbind (heap w ! (m_textures m ! i)) (GL_TEXTURE0 + i))
                       [0..<length (m_textures m)])) w"

definition Mesh_render :: "Mesh \<Rightarrow> program_type \<Rightarrow> world \<Rightarrow> world" where
  "Mesh_render m program w = unbind_textures m (draw_mesh m (bind_textures m program w))"

section \<open>models.h: RawModel\<close>

record RawModel =
  m_meshes_raw :: "Mesh list"
  m_loaded_textures_raw :: "string \<rightharpoonup> tex_ptr"

fun RawModel_textures ::
  "template_args \<Rightarrow> string list \<Rightarrow> tex_ptr list \<Rightarrow> world \<Rightarrow> (exn + tex_ptr list) \<times> world" where
  "RawModel_textures T [] textures w = (Inr textures, w)"
| "RawModel_textures T (path # texture_paths) textures w =
     (if texture_raises T path then (Inl (texture_exception path), w)
      else (let (instance, w1) = make_shared (Texture2D_ctor path [] (indeterminate w)) w;
                w2 = instance_load instance w1
            in RawModel_textures T texture_paths (textures @ [instance]) w2))"

definition RawModel_ctor ::
  "template_args \<Rightarrow> 'v list \<Rightarrow> GLuint list \<Rightarrow> string list \<Rightarrow> world \<Rightarrow> (exn + RawModel) \<times> world" where
  "RawModel_ctor T vertices indices texture_paths w =
     (case RawModel_textures T texture_paths [] w of
        (Inl e, w1) \<Rightarrow> (Inl e, w1)
      | (Inr textures, w1) \<Rightarrow>
          (let (mesh, w2) = Mesh_ctor T vertices indices textures w1
           in (Inr \<lparr>m_meshes_raw = [mesh], m_loaded_textures_raw = Map.empty\<rparr>, w2)))"

definition RawModel_load :: "RawModel \<Rightarrow> world \<Rightarrow> exn option \<times> RawModel \<times> world" where
  "RawModel_load s w = (None, s, w)"

definition RawModel_render :: "RawModel \<Rightarrow> program_type \<Rightarrow> world \<Rightarrow> exn option \<times> world" where
  "RawModel_render s program w =
     (None, foldl (\<lambda>w mesh. Mesh_render mesh program w) w (m_meshes_raw s))"

section \<open>models.h: AssetModel\<close>

record AssetModel =
  m_loaded :: bool
  m_path_model :: string
  m_parentdir :: string
  m_meshes :: "Mesh list"
  m_loaded_textures :: "string \<rightharpoonup> tex_ptr"

definition AssetModel_ctor :: "string \<Rightarrow> AssetModel" where
  "AssetModel_ctor path =
     \<lparr>m_loaded = False, m_path_model = path, m_parentdir = dirname path, m_meshes = [],
      m_loaded_textures = Map.empty\<rparr>"

text \<open>
  A vertex of the vertex data type is built from the raw mesh and a vertex index; the
  attribute classes read the coordinates there. Only the number of vertices reaches the
  device calls, so the vertex is kept as the pair it is built from.
\<close>

datatype vertex_data = Vertex aiMesh nat

definition collect_vertices :: "aiMesh \<Rightarrow> vertex_data list" where
  "collect_vertices raw_mesh = map (Vertex raw_mesh) [0..<mNumVertices raw_mesh]"

definition collect_indices :: "aiMesh \<Rightarrow> GLuint list" where
  "collect_indices raw_mesh = concat (mFaces raw_mesh)"

text \<open>
  The loop of \<open>load_textures\<close> over the texture slots \<open>0 .. GetTextureCount(type) - 1\<close> of
  the material, as a recursion over the paths \<open>GetTexture\<close> returns for them. An
  exception leaves the model and the world as they are at that point; the local vector
  is gone.
\<close>

fun load_textures_loop ::
  "template_args \<Rightarrow> string list \<Rightarrow> tex_ptr list \<Rightarrow> AssetModel \<Rightarrow> world
     \<Rightarrow> (exn + tex_ptr list) \<times> AssetModel \<times> world" where
  "load_textures_loop T [] textures s w = (Inr textures, s, w)"
| "load_textures_loop T (path # paths) textures s w =
     (case m_loaded_textures s path of
        None \<Rightarrow>
          (if texture_raises T (join (m_parentdir s) path)
           then (Inl (texture_exception (join (m_parentdir s) path)), s, w)
           else (let (instance, w1) =
                       make_shared (Texture2D_ctor (join (m_parentdir s) path) []
                                      (indeterminate w)) w;
                     w2 = instance_load instance w1
                 in load_textures_loop T paths (textures @ [instance])
                      (s\<lparr>m_loaded_textures := (m_loaded_textures s)(path \<mapsto> instance)\<rparr>) w2))
      | Some found \<Rightarrow> load_textures_loop T paths (textures @ [found]) s w)"

definition load_textures ::
  "template_args \<Rightarrow> aiMaterial \<Rightarrow> aiTextureType \<Rightarrow> tex_ptr list \<Rightarrow> AssetModel \<Rightarrow> world
     \<Rightarrow> (exn + tex_ptr list) \<times> AssetModel \<times> world" where
  "load_textures T material type textures s w =
     load_textures_loop T (GetTextures material type) textures s w"

definition collect_textures ::
  "template_args \<Rightarrow> aiMesh \<Rightarrow> aiScene \<Rightarrow> AssetModel \<Rightarrow> world
     \<Rightarrow> (exn + tex_ptr list) \<times> AssetModel \<times> world" where
  "collect_textures T raw_mesh scene s w =
     (if mMaterialIndex raw_mesh > 0 then
        (if mMaterialIndex raw_mesh < length (mMaterials scene) then
           (let material = mMaterials scene ! mMaterialIndex raw_mesh
            in case load_textures T material aiTextureType_DIFFUSE [] s w of
                 (Inl e, s1, w1) \<Rightarrow> (Inl e, s1, w1)
               | (Inr textures, s1, w1) \<Rightarrow>
                   load_textures T material aiTextureType_SPECULAR textures s1 w1)
         else (Inl undefined_behaviour, s, w))
      else (Inr [], s, w))"

definition process_mesh ::
  "template_args \<Rightarrow> aiMesh \<Rightarrow> aiScene \<Rightarrow> AssetModel \<Rightarrow> world
     \<Rightarrow> (exn + Mesh) \<times> AssetModel \<times> world" where
  "process_mesh T raw_mesh scene s w =
     (let vertices = collect_vertices raw_mesh;
          indices = collect_indices raw_mesh
      in case collect_textures T raw_mesh scene s w of
           (Inl e, s1, w1) \<Rightarrow> (Inl e, s1, w1)
         | (Inr textures, s1, w1) \<Rightarrow>
             (let (mesh, w2) = Mesh_ctor T vertices indices textures w1
              in (Inr mesh, s1, w2)))"

text \<open>The first loop of \<open>process_node\<close>, over the mesh indices of the node.\<close>

fun process_node_meshes ::
  "template_args \<Rightarrow> nat list \<Rightarrow> aiScene \<Rightarrow> AssetModel \<Rightarrow> world
     \<Rightarrow> exn option \<times> AssetModel \<times> world" where
  "process_node_meshes T [] scene s w = (None, s, w)"
| "process_node_meshes T (mesh_index # rest) scene s w =
     (if mesh_index < length (mMeshes scene) then
        (case process_mesh T (mMeshes scene ! mesh_index) scene s w of
           (Inl e, s1, w1) \<Rightarrow> (Some e, s1, w1)
         | (Inr mesh, s1, w1) \<Rightarrow>
             process_node_meshes T rest scene (s1\<lparr>m_meshes := m_meshes s1 @ [mesh]\<rparr>) w1)
      else (Some undefined_behaviour, s, w))"

text \<open>\<open>process_node\<close>, and its second loop over the children of the node.\<close>

fun process_node ::
  "template_args \<Rightarrow> aiNode \<Rightarrow> aiScene \<Rightarrow> AssetModel \<Rightarrow> world
     \<Rightarrow> exn option \<times> AssetModel \<times> world"
and process_node_children ::
  "template_args \<Rightarrow> aiNode list \<Rightarrow> aiScene \<Rightarrow> AssetModel \<Rightarrow> world
     \<Rightarrow> exn option \<times> AssetModel \<times> world" where
  "process_node T (aiNode meshes children) scene s w =
     (case process_node_meshes T meshes scene s w of
        (Some e, s1, w1) \<Rightarrow> (Some e, s1, w1)
      | (None, s1, w1) \<Rightarrow> process_node_children T children scene s1 w1)"
| "process_node_children T [] scene s w = (None, s, w)"
| "process_node_children T (child # children) scene s w =
     (case process_node T child scene s w of
        (Some e, s1, w1) \<Rightarrow> (Some e, s1, w1)
      | (None, s1, w1) \<Rightarrow> process_node_children T children scene s1 w1)"

definition load_model ::
  "template_args \<Rightarrow> AssetModel \<Rightarrow> world \<Rightarrow> exn option \<times> AssetModel \<times> world" where
  "load_model T s w =
     (case ReadFile w (m_path_model s) of
        None \<Rightarrow> (Some (model_error (m_path_model s) ''Cannot load model.''), s, w)
      | Some scene \<Rightarrow>
          (if mFlags scene = AI_SCENE_FLAGS_INCOMPLETE \<or> mRootNode scene = None
           then (Some (model_error (m_path_model s) ''Cannot load model.''), s, w)
           else process_node T (the (mRootNode scene)) scene s w))"

definition AssetModel_load ::
  "template_args \<Rightarrow> AssetModel \<Rightarrow> world \<Rightarrow> exn option \<times> AssetModel \<times> world" where
  "AssetModel_load T s w =
     (if \<not> m_loaded s then
        (case load_model T s w of
           (Some e, s1, w1) \<Rightarrow> (Some e, s1, w1)
         | (None, s1, w1) \<Rightarrow> (None, s1\<lparr>m_loaded := True\<rparr>, w1))
      else (None, s, w))"

definition AssetModel_render ::
  "AssetModel \<Rightarrow> program_type \<Rightarrow> world \<Rightarrow> exn option \<times> world" where
  "AssetModel_render s program w =
     (if \<not> m_loaded s
      then (Some (model_error (m_path_model s) ''Model not loaded before rendering.''), w)
      else (None, foldl (\<lambda>w mesh. Mesh_render mesh program w) w (m_meshes s)))"

text \<open>
  The traversal order as the specification words it: the meshes of a node, then the
  subtree of each child in turn.
\<close>

fun preorder :: "aiNode \<Rightarrow> nat list" where
  "preorder (aiNode meshes children) = meshes @ concat (map preorder children)"

section \<open>Notions used to state the properties\<close>

text \<open>The calls a world transformer issues when run from a world.\<close>

definition issued :: "(world \<Rightarrow> world) \<Rightarrow> world \<Rightarrow> gl_call list" where
  "issued f w = drop (length (calls w)) (calls (f w))"

text \<open>The calls of \<open>Mesh::render\<close>, as a function of the mesh, the program and the heap.\<close>

definition render_calls :: "Mesh \<Rightarrow> program_type \<Rightarrow> Texture2D list \<Rightarrow> gl_call list" where
  "render_calls m program hp =
     concat (map (\<lambda>i. Texture2D_bind (hp ! (m_textures m ! i)) (GL_TEXTURE0 + i)
                        @ [glUniform1i program (m_name (hp ! (m_textures m ! i))) i])
                 [0..<length (m_textures m)])
     @ [glBindVertexArray (m_vao m)]
     @ (if m_index_count m > 0
        then [glDrawElements GL_TRIANGLES (to_GLsizei (m_index_count m)) GL_UNSIGNED_INT]
        else [glDrawArrays GL_TRIANGLES 0 (to_GLsizei (m_vertex_count m))])
     @ [glBindVertexArray 0]
     @ concat (map (\<lambda>i. Texture2D_unbind (hp ! (m_textures m ! i)) (GL_TEXTURE0 + i))
                   [0..<length (m_textures m)])"

text \<open>
  The texture paths of the material a sub-mesh refers to, diffuse slots before specular
  ones; and the paths \<open>collect_textures\<close> looks up for it, which leaves out the material
  at index 0.
\<close>

definition material_paths :: "aiScene \<Rightarrow> aiMesh \<Rightarrow> string list" where
  "material_paths scene raw_mesh =
     (let material = mMaterials scene ! mMaterialIndex raw_mesh
      in GetTextures material aiTextureType_DIFFUSE @ GetTextures material aiTextureType_SPECULAR)"

definition mesh_texture_paths :: "aiScene \<Rightarrow> aiMesh \<Rightarrow> string list" where
  "mesh_texture_paths scene raw_mesh =
     (if mMaterialIndex raw_mesh > 0 then material_paths scene raw_mesh else [])"

text \<open>\<open>cached s p path\<close>: the cache of the model maps the path to the shared pointer.\<close>

definition cached :: "AssetModel \<Rightarrow> tex_ptr \<Rightarrow> string \<Rightarrow> bool" where
  "cached s p path \<longleftrightarrow> m_loaded_textures s path = Some p"

text \<open>
  \<open>built scene s mesh i\<close>: the mesh is the one built from the raw mesh at index \<open>i\<close> of
  the scene: it has its vertex count, the number of its face indices, and the cached
  textures of its paths, in order.
\<close>

definition built :: "aiScene \<Rightarrow> AssetModel \<Rightarrow> Mesh \<Rightarrow> nat \<Rightarrow> bool" where
  "built scene s mesh mesh_index \<longleftrightarrow>
     mesh_index < length (mMeshes scene) \<and>
     m_vertex_count mesh = mNumVertices (mMeshes scene ! mesh_index) \<and>
     m_index_count mesh = length (concat (mFaces (mMeshes scene ! mesh_index))) \<and>
     list_all2 (cached s) (m_textures mesh)
       (mesh_texture_paths scene (mMeshes scene ! mesh_index))"

text \<open>
  The invariant of the texture cache, for a model whose textures are the heap objects
  from \<open>n0\<close> on and whose device calls are the calls from \<open>c0\<close> on: every cache entry
  points to a live object with the resolved path of its key; the objects created for the
  model are exactly the cached ones; and the images decoded are the paths of those
  objects, in order.
\<close>

definition cache_ok :: "AssetModel \<Rightarrow> world \<Rightarrow> bool" where
  "cache_ok s w \<longleftrightarrow>
     (\<forall>path p. m_loaded_textures s path = Some p \<longrightarrow>
        p < length (heap w) \<and> m_path (heap w ! p) = join (m_parentdir s) path)"

definition all_cached :: "nat \<Rightarrow> AssetModel \<Rightarrow> world \<Rightarrow> bool" where
  "all_cached n0 s w \<longleftrightarrow>
     n0 \<le> length (heap w) \<and>
     (\<forall>p. n0 \<le> p \<and> p < length (heap w) \<longrightarrow> (\<exists>path. m_loaded_textures s path = Some p)) \<and>
     (\<forall>path p. m_loaded_textures s path = Some p \<longrightarrow> n0 \<le> p)"

definition loads_ok :: "nat \<Rightarrow> nat \<Rightarrow> world \<Rightarrow> bool" where
  "loads_ok c0 n0 w \<longleftrightarrow>
     c0 \<le> length (calls w) \<and>
     image_loads (drop c0 (calls w)) = map m_path (drop n0 (heap w))"

definition model_inv :: "nat \<Rightarrow> nat \<Rightarrow> AssetModel \<Rightarrow> world \<Rightarrow> bool" where
  "model_inv c0 n0 s w \<longleftrightarrow> cache_ok s w \<and> all_cached n0 s w \<and> loads_ok c0 n0 w"

text \<open>What the functions of the loader leave alone, and what they only extend.\<close>

definition grows :: "AssetModel \<Rightarrow> world \<Rightarrow> AssetModel \<Rightarrow> world \<Rightarrow> bool" where
  "grows s w s' w' \<longleftrightarrow>
     m_loaded s' = m_loaded s \<and> m_path_model s' = m_path_model s \<and>
     m_parentdir s' = m_parentdir s \<and>
     prefix (m_meshes s) (m_meshes s') \<and>
     m_loaded_textures s \<subseteq>\<^sub>m m_loaded_textures s' \<and>
     prefix (heap w) (heap w') \<and> prefix (calls w) (calls w') \<and>
     ReadFile w' = ReadFile w"

text \<open>The condition under which \<open>load_model\<close> raises before the traversal starts.\<close>

definition importer_fails :: "world \<Rightarrow> string \<Rightarrow> bool" where
  "importer_fails w path =
     (case ReadFile w path of
        None \<Rightarrow> True
      | Some scene \<Rightarrow> mFlags scene = AI_SCENE_FLAGS_INCOMPLETE \<or> mRootNode scene = None)"

section \<open>Example inputs\<close>

text \<open>
  A vertex class of a position (\<open>glm::vec3\<close>, 12 bytes) and a normal kept in a
  \<open>glm::vec4\<close> of which three components are declared (16 bytes): 28 bytes.
\<close>

definition PaddedNormal :: attribute where
  "PaddedNormal = \<lparr>attr_size = 3, attr_type = GL_FLOAT, attr_normalized = GL_FALSE,
     sizeof_attr_type = 4\<rparr>"

definition PaddedVertex :: vertex_class where
  "PaddedVertex = \<lparr>attributes = [Position, PaddedNormal], sizeof_TVertex = 28\<rparr>"

text \<open>
  A scene of three sub-meshes, two at the root and one at its only child; the second and
  the third use the same material. A scene whose two sub-meshes use the material at
  index 0. Template arguments under which creating the texture of one path raises.
\<close>

definition brick :: aiMaterial where "brick = \<lparr>diffuse = [''brick.png''], specular = []\<rparr>"
definition wall :: aiMaterial where "wall = \<lparr>diffuse = [''wall.png''], specular = [''wall_s.png'']\<rparr>"

definition triangle :: "nat \<Rightarrow> aiMesh" where
  "triangle material = \<lparr>mNumVertices = 3, mFaces = [[0, 1, 2]], mMaterialIndex = material\<rparr>"
definition quad :: "nat \<Rightarrow> aiMesh" where
  "quad material = \<lparr>mNumVertices = 4, mFaces = [[0, 1, 2], [0, 2, 3]], mMaterialIndex = material\<rparr>"

definition house_root :: aiNode where
  "house_root = aiNode [0, 1] [aiNode [2] []]"

definition house :: aiScene where
  "house = \<lparr>mFlags = 0, mRootNode = Some house_root,
     mMeshes = [triangle 2, quad 1, triangle 1], mMaterials = [brick, wall, brick]\<rparr>"

definition flat :: aiScene where
  "flat = \<lparr>mFlags = 0, mRootNode = Some (aiNode [0, 1] []),
     mMeshes = [triangle 0, quad 0], mMaterials = [wall]\<rparr>"

definition disk :: "string \<Rightarrow> aiScene option" where
  "disk path = (if path = ''m/house.obj'' then Some house
                else if path = ''m/flat.obj'' then Some flat else None)"

definition world0 :: world where
  "world0 = \<lparr>calls = [], fresh = 0, heap = [], indeterminate = False, ReadFile = disk\<rparr>"

definition failing_args :: template_args where
  "failing_args = default_args\<lparr>texture_raises := (\<lambda>path. path = ''m/wall.png'')\<rparr>"

definition house_load :: "exn option \<times> AssetModel \<times> world" where
  "house_load = AssetModel_load default_args (AssetModel_ctor ''m/house.obj'') world0"

definition house_fail :: "exn option \<times> AssetModel \<times> world" where
  "house_fail = AssetModel_load failing_args (AssetModel_ctor ''m/house.obj'') world0"

text \<open>The load of the example scene tried again on the model and in the world the
  failed load left, when creating the texture no longer raises.\<close>

definition house_retry :: "exn option \<times> AssetModel \<times> world" where
  "house_retry = AssetModel_load default_args (fst (snd house_fail)) (snd (snd house_fail))"

definition flat_load :: "exn option \<times> AssetModel \<times> world" where
  "flat_load = AssetModel_load default_args (AssetModel_ctor ''m/flat.obj'') world0"

definition triangle_mesh :: Mesh where
  "triangle_mesh = fst (Mesh_ctor default_args [Vertex (triangle 0) 0, Vertex (triangle 0) 1,
     Vertex (triangle 0) 2] [0, 1, 2] [] world0)"

definition soup_mesh :: Mesh where
  "soup_mesh = fst (Mesh_ctor default_args [Vertex (triangle 0) 0, Vertex (triangle 0) 1,
     Vertex (triangle 0) 2] [] [] world0)"

text \<open>A mesh of \<open>2^31\<close> indices.\<close>

definition huge_indices :: "GLuint list" where
  "huge_indices = replicate 2147483648 0"

definition huge_mesh :: Mesh where
  "huge_mesh = fst (Mesh_ctor default_args [Vertex (triangle 0) 0] huge_indices [] world0)"

text \<open>The default vertex data type of \<open>RawModel\<close> is \<open>GLfloat\<close>, of 4 bytes.\<close>

definition raw_args :: template_args where
  "raw_args = default_args\<lparr>sizeof_vertex_data := 4\<rparr>"

definition raw_quad :: "(exn + RawModel) \<times> world" where
  "raw_quad = RawModel_ctor raw_args [0, 1, 2, 3 :: nat] [0, 1, 2, 0, 2, 3]
     [''a.png'', ''a.png''] world0"

definition two_meshes :: AssetModel where
  "two_meshes = (AssetModel_ctor ''m/house.obj'')
     \<lparr>m_loaded := True, m_meshes := [triangle_mesh, soup_mesh]\<rparr>"

section \<open>The attribute installer\<close>

lemma add_each_expand_eq:
  "add_each_expand as stride off pos =
     (concat (map (\<lambda>k. [glVertexAttribPointer (pos + k) (attr_size (as ! k)) (attr_type (as ! k))
                           (attr_normalized (as ! k)) stride
                           (off + sum_list (map data_size (take k as))),
                         glEnableVertexAttribArray (pos + k)])
                 [0..<length as]),
      off + sum_list (map data_size as))"
proof (induction as arbitrary: off pos)
  case Nil
  show ?case by simp
next
  case (Cons a as)
  have upt: "[0..<length (a # as)] = 0 # map Suc [0..<length as]"
    by (simp add: upt_conv_Cons map_Suc_upt del: upt_Suc)
  show ?case
    unfolding upt
    by (simp add: Cons.IH VertexAttributeInstaller_def comp_def add.assoc)
qed

lemma measured_sizes:
  "\<forall>a \<in> set as. measured a \<Longrightarrow> sum_list (map data_size as) = layout_size as"
  by (induction as) (simp_all add: layout_size_def data_size_def attribute_size_def measured_def)

lemma measured_take: "\<forall>a \<in> set as. measured a \<Longrightarrow> \<forall>a \<in> set (take k as). measured a"
  by (meson in_set_takeD)

lemma add_each_packed:
  assumes "\<forall>a \<in> set (attributes V). measured a"
  shows "add_each V = packed_layout (sizeof_TVertex V) (attributes V)"
proof -
  have "sum_list (map data_size (take k (attributes V))) = layout_size (take k (attributes V))"
    for k
    using measured_sizes[OF measured_take[OF assms]] .
  then show ?thesis
    by (simp add: add_each_def packed_layout_def add_each_expand_eq)
qed

lemma component_byte_size_float: "component_byte_size GL_FLOAT = 4"
  by (simp add: component_byte_size_def GL_FLOAT_def GL_BYTE_def GL_UNSIGNED_BYTE_def
      GL_SHORT_def GL_UNSIGNED_SHORT_def GL_INT_def GL_UNSIGNED_INT_def)

lemma to_GLsizei_small: "n < 2 ^ 31 \<Longrightarrow> to_GLsizei n = int n"
  unfolding to_GLsizei_def
  by (simp add: signed_of_nat signed_take_bit_int_eq_self)

section \<open>Device calls of the mesh constructor and of rendering\<close>

lemma image_loads_append [simp]: "image_loads (xs @ ys) = image_loads xs @ image_loads ys"
  by (simp add: image_loads_def)

lemma image_loads_Nil [simp]: "image_loads [] = []"
  by (simp add: image_loads_def)

lemma image_loads_Cons: "image_loads (c # cs) = image_load c @ image_loads cs"
  by (simp add: image_loads_def)

lemma image_loads_add_each_expand:
  "image_loads (fst (add_each_expand as stride off pos)) = []"
  by (induction as arbitrary: off pos)
     (simp_all add: VertexAttributeInstaller_def split_def Let_def image_loads_Cons)

lemma image_loads_add_each [simp]: "image_loads (add_each V) = []"
  by (simp add: add_each_def image_loads_add_each_expand)

lemma Mesh_ctor_mesh:
  "m_vertex_count (fst (Mesh_ctor T vs ixs ts w)) = length vs"
  "m_index_count (fst (Mesh_ctor T vs ixs ts w)) = length ixs"
  "m_textures (fst (Mesh_ctor T vs ixs ts w)) = ts"
  by (simp_all add: Mesh_ctor_def Let_def split_def)

lemma Mesh_ctor_world:
  "heap (snd (Mesh_ctor T vs ixs ts w)) = heap w"
  "ReadFile (snd (Mesh_ctor T vs ixs ts w)) = ReadFile w"
  "indeterminate (snd (Mesh_ctor T vs ixs ts w)) = indeterminate w"
  by (simp_all add: Mesh_ctor_def Let_def split_def glGen_def emit_def)

lemma Mesh_ctor_calls:
  "\<exists>cs. calls (snd (Mesh_ctor T vs ixs ts w)) = calls w @ cs \<and> image_loads cs = []"
  by (simp add: Mesh_ctor_def Let_def split_def glGen_def emit_def image_loads_Cons)

lemma Mesh_render_eq:
  "Mesh_render m program w = w\<lparr>calls := calls w @ render_calls m program (heap w)\<rparr>"
  by (simp add: Mesh_render_def unbind_textures_def draw_mesh_def bind_textures_def emit_def
      render_calls_def Let_def)

lemma filter_draw_concat_Nil:
  "(\<And>x. x \<in> set xs \<Longrightarrow> filter is_draw (f x) = []) \<Longrightarrow> filter is_draw (concat (map f xs)) = []"
  by (induction xs) simp_all

lemma filter_draw_render_calls:
  "filter is_draw (render_calls m program hp) =
     (if m_index_count m > 0
      then [glDrawElements GL_TRIANGLES (to_GLsizei (m_index_count m)) GL_UNSIGNED_INT]
      else [glDrawArrays GL_TRIANGLES 0 (to_GLsizei (m_vertex_count m))])"
  by (simp add: render_calls_def filter_draw_concat_Nil Texture2D_bind_def Texture2D_unbind_def)

lemma issued_Mesh_render: "issued (Mesh_render m program) w = render_calls m program (heap w)"
  by (simp add: issued_def Mesh_render_eq)

lemma foldl_Mesh_render:
  "foldl (\<lambda>w mesh. Mesh_render mesh program w) w ms =
     w\<lparr>calls := calls w @ concat (map (\<lambda>mesh. render_calls mesh program (heap w)) ms)\<rparr>"
  by (induction ms arbitrary: w) (simp_all add: Mesh_render_eq)

section \<open>The texture cache\<close>

lemma grows_refl [simp]: "grows s w s w"
  by (simp add: grows_def)

lemma grows_trans: "grows s w s1 w1 \<Longrightarrow> grows s1 w1 s2 w2 \<Longrightarrow> grows s w s2 w2"
  unfolding grows_def by (auto intro: map_le_trans)

lemma grows_cache: "grows s w s' w' \<Longrightarrow> m_loaded_textures s \<subseteq>\<^sub>m m_loaded_textures s'"
  by (simp add: grows_def)

lemma cached_mono: "m_loaded_textures s \<subseteq>\<^sub>m m_loaded_textures s' \<Longrightarrow> cached s p path \<Longrightarrow> cached s' p path"
  unfolding cached_def map_le_def by (metis domI)

lemma cached_all2_mono:
  "m_loaded_textures s \<subseteq>\<^sub>m m_loaded_textures s' \<Longrightarrow> list_all2 (cached s) ps paths
     \<Longrightarrow> list_all2 (cached s') ps paths"
  by (erule list_all2_mono) (rule cached_mono)

lemma built_mono:
  "m_loaded_textures s \<subseteq>\<^sub>m m_loaded_textures s' \<Longrightarrow> built scene s mesh i \<Longrightarrow> built scene s' mesh i"
  unfolding built_def by (auto intro: cached_all2_mono)

lemma created_heap:
  "heap (instance_load (length (heap w)) (w\<lparr>heap := heap w @ [t]\<rparr>))
     = heap w @ [t\<lparr>m_handle := Suc (fresh w)\<rparr>]"
  by (simp add: instance_load_def Texture2D_load_def glGen_def emit_def Let_def)

lemma created_calls:
  "\<exists>cs. calls (instance_load (length (heap w)) (w\<lparr>heap := heap w @ [t]\<rparr>)) = calls w @ cs
        \<and> image_loads cs = [m_path t]"
  by (simp add: instance_load_def Texture2D_load_def glGen_def emit_def Let_def image_loads_Cons)

lemma created_frame:
  "ReadFile (instance_load (length (heap w)) (w\<lparr>heap := heap w @ [t]\<rparr>)) = ReadFile w"
  "indeterminate (instance_load (length (heap w)) (w\<lparr>heap := heap w @ [t]\<rparr>)) = indeterminate w"
  by (simp_all add: instance_load_def Texture2D_load_def glGen_def emit_def Let_def)

lemma m_path_ctor [simp]: "m_path (Texture2D_ctor path name g) = path"
  by (simp add: Texture2D_ctor_def)

lemma create_step:
  assumes none: "m_loaded_textures s path = None"
    and s1: "s1 = s\<lparr>m_loaded_textures := (m_loaded_textures s)(path \<mapsto> length (heap w))\<rparr>"
    and w2: "w2 = instance_load (length (heap w))
                    (w\<lparr>heap := heap w @ [Texture2D_ctor (join (m_parentdir s) path) [] g]\<rparr>)"
  shows "grows s w s1 w2" and "model_inv c0 n0 s w \<Longrightarrow> model_inv c0 n0 s1 w2"
proof -
  let ?t = "Texture2D_ctor (join (m_parentdir s) path) [] g"
  have hp: "heap w2 = heap w @ [?t\<lparr>m_handle := Suc (fresh w)\<rparr>]"
    unfolding w2 by (rule created_heap)
  obtain cs where cs: "calls w2 = calls w @ cs" "image_loads cs = [join (m_parentdir s) path]"
    using created_calls[of w ?t] unfolding w2 by auto
  have rf: "ReadFile w2 = ReadFile w" unfolding w2 by (rule created_frame)
  have le: "m_loaded_textures s \<subseteq>\<^sub>m m_loaded_textures s1"
    using none unfolding s1 by (auto simp: map_le_def)
  show "grows s w s1 w2"
    unfolding grows_def using le hp cs rf by (simp add: s1)
  assume i: "model_inv c0 n0 s w"
  have "cache_ok s1 w2"
    unfolding cache_ok_def
  proof (intro allI impI)
    fix path' p assume a: "m_loaded_textures s1 path' = Some p"
    show "p < length (heap w2) \<and> m_path (heap w2 ! p) = join (m_parentdir s1) path'"
    proof (cases "path' = path")
      case True
      with a have "p = length (heap w)" by (simp add: s1)
      then show ?thesis by (simp add: hp s1 True)
    next
      case False
      with a have "m_loaded_textures s path' = Some p" by (simp add: s1)
      with i have "p < length (heap w) \<and> m_path (heap w ! p) = join (m_parentdir s) path'"
        unfolding model_inv_def cache_ok_def by blast
      then show ?thesis by (simp add: hp s1 nth_append)
    qed
  qed
  moreover have "all_cached n0 s1 w2"
    unfolding all_cached_def hp s1
  proof (intro conjI allI impI)
    show "n0 \<le> length (heap w @ [?t\<lparr>m_handle := Suc (fresh w)\<rparr>])"
      using i unfolding model_inv_def all_cached_def by simp
  next
    fix p assume p: "n0 \<le> p \<and> p < length (heap w @ [?t\<lparr>m_handle := Suc (fresh w)\<rparr>])"
    show "\<exists>path'. m_loaded_textures (s\<lparr>m_loaded_textures := (m_loaded_textures s)(path \<mapsto> length (heap w))\<rparr>) path' = Some p"
    proof (cases "p = length (heap w)")
      case True then show ?thesis by (intro exI[of _ path]) simp
    next
      case False
      with p have "n0 \<le> p \<and> p < length (heap w)" by simp
      with i obtain path' where "m_loaded_textures s path' = Some p"
        unfolding model_inv_def all_cached_def by blast
      moreover with none have "path' \<noteq> path" by auto
      ultimately show ?thesis by (intro exI[of _ path']) simp
    qed
  next
    fix path' p
    assume a: "m_loaded_textures (s\<lparr>m_loaded_textures := (m_loaded_textures s)(path \<mapsto> length (heap w))\<rparr>) path' = Some p"
    show "n0 \<le> p"
    proof (cases "path' = path")
      case True
      with a i show ?thesis unfolding model_inv_def all_cached_def by simp
    next
      case False
      with a have "m_loaded_textures s path' = Some p" by simp
      with i show ?thesis unfolding model_inv_def all_cached_def by blast
    qed
  qed
  moreover have "loads_ok c0 n0 w2"
    using i cs(2) unfolding model_inv_def loads_ok_def all_cached_def hp cs(1) by simp
  ultimately show "model_inv c0 n0 s1 w2" unfolding model_inv_def by simp
qed

lemma load_textures_loop_props:
  assumes "load_textures_loop T paths textures s w = (r, s', w')"
  shows "grows s w s' w' \<and> m_meshes s' = m_meshes s \<and>
         (model_inv c0 n0 s w \<longrightarrow> model_inv c0 n0 s' w') \<and>
         (\<forall>ts. r = Inr ts \<longrightarrow> (\<exists>new. ts = textures @ new \<and> list_all2 (cached s') new paths))"
  using assms
proof (induction paths arbitrary: textures s w)
  case Nil
  then show ?case by auto
next
  case (Cons path paths)
  show ?case
  proof (cases "m_loaded_textures s path")
    case (Some found)
    with Cons.prems have run: "load_textures_loop T paths (textures @ [found]) s w = (r, s', w')"
      by simp
    note IH = Cons.IH[OF run]
    have "cached s found path" using Some by (simp add: cached_def)
    moreover have "grows s w s' w'" using IH by simp
    ultimately have hit: "cached s' found path"
      by (blast intro: cached_mono[OF grows_cache])
    have "\<exists>new. ts = textures @ new \<and> list_all2 (cached s') new (path # paths)" if "r = Inr ts" for ts
    proof -
      from IH that obtain new where "ts = (textures @ [found]) @ new" "list_all2 (cached s') new paths"
        by blast
      with hit show ?thesis by (intro exI[of _ "found # new"]) simp
    qed
    with IH show ?thesis by blast
  next
    case None
    show ?thesis
    proof (cases "texture_raises T (join (m_parentdir s) path)")
      case True
      with None Cons.prems show ?thesis by auto
    next
      case False
      define s1 where "s1 = s\<lparr>m_loaded_textures := (m_loaded_textures s)(path \<mapsto> length (heap w))\<rparr>"
      define w2 where "w2 = instance_load (length (heap w))
         (w\<lparr>heap := heap w @ [Texture2D_ctor (join (m_parentdir s) path) [] (indeterminate w)]\<rparr>)"
      from None False Cons.prems
      have run: "load_textures_loop T paths (textures @ [length (heap w)]) s1 w2 = (r, s', w')"
        by (simp add: make_shared_def s1_def w2_def)
      note IH = Cons.IH[OF run]
      note step = create_step[OF None s1_def w2_def]
      have g: "grows s w s' w'"
        using step(1) IH by (blast intro: grows_trans)
      have m: "m_meshes s' = m_meshes s"
        using IH by (simp add: s1_def)
      have i: "model_inv c0 n0 s w \<longrightarrow> model_inv c0 n0 s' w'"
        using step(2) IH by blast
      have c1: "cached s1 (length (heap w)) path"
        by (simp add: cached_def s1_def)
      have "grows s1 w2 s' w'" using IH by simp
      with c1 have miss: "cached s' (length (heap w)) path"
        by (blast intro: cached_mono[OF grows_cache])
      have "\<exists>new. ts = textures @ new \<and> list_all2 (cached s') new (path # paths)" if "r = Inr ts" for ts
      proof -
        from IH that obtain new where
          "ts = (textures @ [length (heap w)]) @ new" "list_all2 (cached s') new paths"
          by blast
        with miss show ?thesis by (intro exI[of _ "length (heap w) # new"]) simp
      qed
      with g m i show ?thesis by blast
    qed
  qed
qed

lemma collect_textures_zero:
  "mMaterialIndex raw_mesh = 0 \<Longrightarrow> collect_textures T raw_mesh scene s w = (Inr [], s, w)"
  by (simp add: collect_textures_def)

lemma collect_textures_props:
  assumes "collect_textures T raw_mesh scene s w = (r, s', w')"
  shows "grows s w s' w' \<and> m_meshes s' = m_meshes s \<and>
         (model_inv c0 n0 s w \<longrightarrow> model_inv c0 n0 s' w') \<and>
         (\<forall>ts. r = Inr ts \<longrightarrow> list_all2 (cached s') ts (mesh_texture_paths scene raw_mesh))"
proof (cases "mMaterialIndex raw_mesh > 0")
  case False
  with assms show ?thesis by (auto simp: collect_textures_def mesh_texture_paths_def)
next
  case pos: True
  show ?thesis
  proof (cases "mMaterialIndex raw_mesh < length (mMaterials scene)")
    case False
    with pos assms show ?thesis by (auto simp: collect_textures_def)
  next
    case True
    define material where "material = mMaterials scene ! mMaterialIndex raw_mesh"
    obtain r1 s1 w1 where
      d: "load_textures_loop T (GetTextures material aiTextureType_DIFFUSE) [] s w = (r1, s1, w1)"
      by (metis prod_cases3)
    note D = load_textures_loop_props[OF d, of c0 n0]
    show ?thesis
    proof (cases r1)
      case (Inl e)
      with pos True assms d have "r = Inl e" "s' = s1" "w' = w1"
        by (simp_all add: collect_textures_def load_textures_def material_def)
      with D show ?thesis by simp
    next
      case (Inr ts1)
      with pos True assms d have
        sp: "load_textures_loop T (GetTextures material aiTextureType_SPECULAR) ts1 s1 w1 = (r, s', w')"
        by (simp add: collect_textures_def load_textures_def material_def)
      note S = load_textures_loop_props[OF sp, of c0 n0]
      have g: "grows s w s' w'" using D S by (blast intro: grows_trans)
      have "list_all2 (cached s') ts (mesh_texture_paths scene raw_mesh)" if "r = Inr ts" for ts
      proof -
        from S that obtain new where
          n: "ts = ts1 @ new" "list_all2 (cached s') new (GetTextures material aiTextureType_SPECULAR)"
          by blast
        from D Inr have "list_all2 (cached s1) ts1 (GetTextures material aiTextureType_DIFFUSE)"
          by simp
        moreover have "grows s1 w1 s' w'" using S by simp
        ultimately have "list_all2 (cached s') ts1 (GetTextures material aiTextureType_DIFFUSE)"
          by (blast intro: cached_all2_mono[OF grows_cache])
        with n pos show ?thesis
          by (simp add: mesh_texture_paths_def material_paths_def material_def Let_def list_all2_appendI)
      qed
      with g D S show ?thesis by auto
    qed
  qed
qed

section \<open>Meshes and the traversal\<close>

lemma Mesh_ctor_frame:
  assumes "Mesh_ctor T vs ixs ts w = (mesh, w')"
  shows "grows s w s w'" and "model_inv c0 n0 s w \<Longrightarrow> model_inv c0 n0 s w'"
proof -
  have hp: "heap w' = heap w" and rf: "ReadFile w' = ReadFile w"
    using Mesh_ctor_world(1,2)[of T vs ixs ts w] assms by simp_all
  obtain cs where cs: "calls w' = calls w @ cs" "image_loads cs = []"
    using Mesh_ctor_calls[of T vs ixs ts w] assms by auto
  show "grows s w s w'"
    by (simp add: grows_def hp rf cs)
  assume "model_inv c0 n0 s w"
  then show "model_inv c0 n0 s w'"
    by (simp add: model_inv_def cache_ok_def all_cached_def loads_ok_def hp cs)
qed

lemma process_mesh_props:
  assumes "process_mesh T raw_mesh scene s w = (r, s', w')"
  shows "grows s w s' w' \<and> m_meshes s' = m_meshes s \<and>
         (model_inv c0 n0 s w \<longrightarrow> model_inv c0 n0 s' w') \<and>
         (\<forall>mesh. r = Inr mesh \<longrightarrow>
            m_vertex_count mesh = mNumVertices raw_mesh \<and>
            m_index_count mesh = length (concat (mFaces raw_mesh)) \<and>
            list_all2 (cached s') (m_textures mesh) (mesh_texture_paths scene raw_mesh))"
proof -
  obtain r1 s1 w1 where c: "collect_textures T raw_mesh scene s w = (r1, s1, w1)"
    by (metis prod_cases3)
  note C = collect_textures_props[OF c, of c0 n0]
  show ?thesis
  proof (cases r1)
    case (Inl e)
    with assms c have "r = Inl e" "s' = s1" "w' = w1"
      by (simp_all add: process_mesh_def)
    with C show ?thesis by simp
  next
    case (Inr ts)
    obtain mesh w2 where
      mc: "Mesh_ctor T (collect_vertices raw_mesh) (collect_indices raw_mesh) ts w1 = (mesh, w2)"
      by (metis surj_pair)
    with Inr assms c have res: "r = Inr mesh" "s' = s1" "w' = w2"
      by (simp_all add: process_mesh_def)
    note F = Mesh_ctor_frame[OF mc]
    have g: "grows s w s' w'" using C F(1) res by (blast intro: grows_trans)
    have flds: "m_vertex_count mesh = mNumVertices raw_mesh"
      "m_index_count mesh = length (concat (mFaces raw_mesh))" "m_textures mesh = ts"
      using Mesh_ctor_mesh[of T "collect_vertices raw_mesh" "collect_indices raw_mesh" ts w1] mc
      by (simp_all add: collect_vertices_def collect_indices_def)
    from C Inr have "list_all2 (cached s1) ts (mesh_texture_paths scene raw_mesh)" by simp
    with g C F(2) res flds show ?thesis by auto
  qed
qed

lemma process_node_meshes_props:
  assumes "process_node_meshes T idxs scene s w = (r, s', w')"
  shows "grows s w s' w' \<and>
         (model_inv c0 n0 s w \<longrightarrow> model_inv c0 n0 s' w') \<and>
         (\<exists>new. m_meshes s' = m_meshes s @ new \<and>
            list_all2 (built scene s') new (take (length new) idxs) \<and>
            (r = None \<longrightarrow> length new = length idxs) \<and>
            (r \<noteq> None \<longrightarrow> length new < length idxs))"
  using assms
proof (induction idxs arbitrary: s w)
  case Nil
  then show ?case by auto
next
  case (Cons i idxs)
  show ?case
  proof (cases "i < length (mMeshes scene)")
    case False
    with Cons.prems have "r = Some undefined_behaviour" "s' = s" "w' = w" by simp_all
    then show ?thesis by simp
  next
    case True
    obtain r1 s1 w1 where p: "process_mesh T (mMeshes scene ! i) scene s w = (r1, s1, w1)"
      by (metis prod_cases3)
    note P = process_mesh_props[OF p, of c0 n0]
    show ?thesis
    proof (cases r1)
      case (Inl e)
      with True Cons.prems p have "r = Some e" "s' = s1" "w' = w1" by simp_all
      with P show ?thesis by simp
    next
      case (Inr mesh)
      define s2 where "s2 = s1\<lparr>m_meshes := m_meshes s1 @ [mesh]\<rparr>"
      from Inr True Cons.prems p
      have run: "process_node_meshes T idxs scene s2 w1 = (r, s', w')"
        by (simp add: s2_def)
      note IH = Cons.IH[OF run]
      have g12: "grows s1 w1 s2 w1" by (simp add: grows_def s2_def)
      have g: "grows s w s' w'"
        using P g12 IH by (blast intro: grows_trans)
      have i12: "model_inv c0 n0 s1 w1 \<Longrightarrow> model_inv c0 n0 s2 w1"
        by (simp add: model_inv_def cache_ok_def all_cached_def s2_def)
      have i: "model_inv c0 n0 s w \<longrightarrow> model_inv c0 n0 s' w'"
        using P i12 IH by blast
      have "built scene s1 mesh i"
        using P Inr True by (simp add: built_def)
      moreover have "m_loaded_textures s1 \<subseteq>\<^sub>m m_loaded_textures s'"
        using IH by (simp add: grows_def s2_def)
      ultimately have b: "built scene s' mesh i" by (blast intro: built_mono)
      from IH obtain new where new: "m_meshes s' = m_meshes s2 @ new"
        "list_all2 (built scene s') new (take (length new) idxs)"
        "r = None \<longrightarrow> length new = length idxs" "r \<noteq> None \<longrightarrow> length new < length idxs"
        by blast
      have "m_meshes s' = m_meshes s @ (mesh # new)"
        using new(1) P by (simp add: s2_def)
      moreover have "list_all2 (built scene s') (mesh # new) (take (length (mesh # new)) (i # idxs))"
        using b new(2) by simp
      moreover have "r = None \<longrightarrow> length (mesh # new) = length (i # idxs)"
        using new(3) by simp
      moreover have "r \<noteq> None \<longrightarrow> length (mesh # new) < length (i # idxs)"
        using new(4) by simp
      ultimately show ?thesis using g i by blast
    qed
  qed
qed

lemma process_node_meshes_append:
  "process_node_meshes T (xs @ ys) scene s w =
     (case process_node_meshes T xs scene s w of
        (Some e, s1, w1) \<Rightarrow> (Some e, s1, w1)
      | (None, s1, w1) \<Rightarrow> process_node_meshes T ys scene s1 w1)"
  by (induction xs arbitrary: s w) (auto split: prod.splits sum.splits option.splits)

lemma process_node_preorder_aux:
  "process_node T node scene s w = process_node_meshes T (preorder node) scene s w"
  "process_node_children T children scene s w =
     process_node_meshes T (concat (map preorder children)) scene s w"
  by (induction T node scene s w and T children scene s w
      rule: process_node_process_node_children.induct)
     (auto simp: process_node_meshes_append split: prod.splits option.splits)

section \<open>Loading a model\<close>

lemma load_model_fails:
  "importer_fails w (m_path_model s) \<Longrightarrow>
     load_model T s w = (Some (model_error (m_path_model s) ''Cannot load model.''), s, w)"
  by (auto simp: importer_fails_def load_model_def split: option.splits)

lemma load_model_traverses:
  "ReadFile w (m_path_model s) = Some scene \<Longrightarrow> \<not> importer_fails w (m_path_model s) \<Longrightarrow>
     load_model T s w = process_node_meshes T (preorder (the (mRootNode scene))) scene s w"
  by (auto simp: importer_fails_def load_model_def process_node_preorder_aux)

lemma load_model_props:
  assumes "load_model T s w = (r, s', w')"
  shows "grows s w s' w' \<and> (model_inv c0 n0 s w \<longrightarrow> model_inv c0 n0 s' w')"
proof (cases "importer_fails w (m_path_model s)")
  case True
  with assms show ?thesis by (simp add: load_model_fails)
next
  case False
  then obtain scene where "ReadFile w (m_path_model s) = Some scene"
    by (auto simp: importer_fails_def split: option.splits)
  with False assms process_node_meshes_props[of T "preorder (the (mRootNode scene))" scene s w r s' w']
  show ?thesis by (simp add: load_model_traverses)
qed

lemma model_inv_loaded [simp]: "model_inv c0 n0 (s\<lparr>m_loaded := b\<rparr>) w = model_inv c0 n0 s w"
  by (simp add: model_inv_def cache_ok_def all_cached_def)

lemma cached_loaded [simp]: "cached (s\<lparr>m_loaded := b\<rparr>) = cached s"
  by (simp add: cached_def fun_eq_iff)

lemma built_loaded [simp]: "built scene (s\<lparr>m_loaded := b\<rparr>) = built scene s"
  by (simp add: built_def fun_eq_iff)

lemma AssetModel_load_inv:
  assumes "AssetModel_load T s w = (r, s', w')" and "model_inv c0 n0 s w"
  shows "model_inv c0 n0 s' w'"
proof (cases "m_loaded s")
  case True
  with assms show ?thesis by (simp add: AssetModel_load_def)
next
  case False
  obtain r1 s1 w1 where l: "load_model T s w = (r1, s1, w1)" by (metis prod_cases3)
  from load_model_props[OF l, of c0 n0] assms(2) have "model_inv c0 n0 s1 w1" by simp
  with False assms(1) l show ?thesis
    by (cases r1) (auto simp: AssetModel_load_def)
qed

lemma model_inv_fresh:
  "model_inv (length (calls w)) (length (heap w)) (AssetModel_ctor path) w"
  by (simp add: model_inv_def cache_ok_def all_cached_def loads_ok_def AssetModel_ctor_def)

lemma AssetModel_load_success:
  assumes "AssetModel_load T s w = (None, s', w')" and "\<not> m_loaded s"
    and "ReadFile w (m_path_model s) = Some scene"
  shows "\<exists>root. mRootNode scene = Some root \<and>
           process_node_meshes T (preorder root) scene s w = (None, s'\<lparr>m_loaded := False\<rparr>, w')"
proof -
  obtain r1 s1 w1 where l: "load_model T s w = (r1, s1, w1)" by (metis prod_cases3)
  with assms(1,2) have r1: "r1 = None" and s': "s' = s1\<lparr>m_loaded := True\<rparr>" and w': "w' = w1"
    by (cases r1; simp add: AssetModel_load_def)+
  have nf: "\<not> importer_fails w (m_path_model s)"
    using l r1 by (auto simp: load_model_fails)
  then obtain root where root: "mRootNode scene = Some root"
    using assms(3) by (auto simp: importer_fails_def)
  have "m_loaded s1 = m_loaded s" using load_model_props[OF l] by (simp add: grows_def)
  then have "s'\<lparr>m_loaded := False\<rparr> = s1" using assms(2) by (simp add: s')
  with load_model_traverses[OF assms(3) nf, of T] l r1 w' root show ?thesis by simp
qed

lemma AssetModel_load_built:
  assumes "AssetModel_load T s w = (None, s', w')" and "\<not> m_loaded s"
    and "ReadFile w (m_path_model s) = Some scene" and "mRootNode scene = Some root"
  shows "process_node T root scene s w = process_node_meshes T (preorder root) scene s w \<and>
         take (length (m_meshes s)) (m_meshes s') = m_meshes s \<and>
         list_all2 (built scene s') (drop (length (m_meshes s)) (m_meshes s')) (preorder root)"
proof -
  from AssetModel_load_success[OF assms(1-3)] assms(4)
  have run: "process_node_meshes T (preorder root) scene s w = (None, s'\<lparr>m_loaded := False\<rparr>, w')"
    by simp
  from process_node_meshes_props[OF run, of 0 0] obtain new where
    "m_meshes s' = m_meshes s @ new"
    "list_all2 (built scene s') new (take (length new) (preorder root))"
    "length new = length (preorder root)"
    by auto
  then show ?thesis by (simp add: process_node_preorder_aux)
qed

lemma count_list_distinct: "distinct xs \<Longrightarrow> x \<in> set xs \<Longrightarrow> count_list xs x = 1"
  by (induction xs) auto

lemma join_inject [simp]: "join d p = join d q \<longleftrightarrow> p = q"
  by (simp add: join_def)

lemma created_unique:
  assumes i: "model_inv c0 n0 s w"
    and p: "n0 \<le> p" "p < length (heap w)" and q: "n0 \<le> q" "q < length (heap w)"
    and eq: "m_path (heap w ! p) = m_path (heap w ! q)"
  shows "p = q"
proof -
  from i p obtain path1 where 1: "m_loaded_textures s path1 = Some p"
    unfolding model_inv_def all_cached_def by blast
  from i q obtain path2 where 2: "m_loaded_textures s path2 = Some q"
    unfolding model_inv_def all_cached_def by blast
  from i 1 2 have "m_path (heap w ! p) = join (m_parentdir s) path1"
    "m_path (heap w ! q) = join (m_parentdir s) path2"
    unfolding model_inv_def cache_ok_def by blast+
  with eq have "path1 = path2" by simp
  with 1 2 show ?thesis by simp
qed

lemma created_distinct:
  assumes i: "model_inv c0 n0 s w"
  shows "distinct (map m_path (drop n0 (heap w)))"
proof -
  have "i = j" if "i < length (heap w) - n0" "j < length (heap w) - n0"
    "m_path (drop n0 (heap w) ! i) = m_path (drop n0 (heap w) ! j)" for i j
  proof -
    from that have "m_path (heap w ! (n0 + i)) = m_path (heap w ! (n0 + j))" by simp
    from created_unique[OF assms _ _ _ _ this] that show ?thesis by simp
  qed
  then show ?thesis
    by (auto simp: distinct_conv_nth)
qed

lemma cached_in_textures:
  assumes "list_all2 (cached s) ps paths" and "q \<in> set paths"
  shows "\<exists>p \<in> set ps. cached s p q"
  using assms by (induction rule: list_all2_induct) auto

lemma textures_are_cached:
  assumes "list_all2 (cached s) ps paths" and "p \<in> set ps"
  shows "\<exists>q. cached s p q"
  using assms by (induction rule: list_all2_induct) auto

lemma shared_texture_instance:
  assumes load: "AssetModel_load T (AssetModel_ctor path) w = (None, s', w')"
    and scene: "ReadFile w path = Some scene" and root: "mRootNode scene = Some root"
    and k1: "k1 < length (preorder root)" and k2: "k2 < length (preorder root)"
    and distinct: "k1 \<noteq> k2"
    and m1: "0 < mMaterialIndex (mMeshes scene ! (preorder root ! k1))"
    and m2: "0 < mMaterialIndex (mMeshes scene ! (preorder root ! k2))"
    and q1: "q \<in> set (material_paths scene (mMeshes scene ! (preorder root ! k1)))"
    and q2: "q \<in> set (material_paths scene (mMeshes scene ! (preorder root ! k2)))"
  shows "\<exists>p. m_loaded_textures s' q = Some p \<and>
           p \<in> set (m_textures (m_meshes s' ! k1)) \<and> p \<in> set (m_textures (m_meshes s' ! k2)) \<and>
           length (heap w) \<le> p \<and> p < length (heap w') \<and>
           m_path (heap w' ! p) = join (dirname path) q \<and>
           (\<forall>p'. length (heap w) \<le> p' \<and> p' < length (heap w') \<and>
                 m_path (heap w' ! p') = join (dirname path) q \<longrightarrow> p' = p) \<and>
           (\<forall>mesh \<in> set (m_meshes s'). \<forall>p' \<in> set (m_textures mesh).
                 m_path (heap w' ! p') = join (dirname path) q \<longrightarrow> p' = p) \<and>
           count_list (image_loads (drop (length (calls w)) (calls w'))) (join (dirname path) q) = 1 \<and>
           distinct (map m_path (drop (length (heap w)) (heap w')))"
proof -
  let ?s = "AssetModel_ctor path" and ?n0 = "length (heap w)" and ?c0 = "length (calls w)"
  have s0: "\<not> m_loaded ?s" "m_path_model ?s = path" "m_meshes ?s = []"
    "m_parentdir ?s = dirname path"
    by (simp_all add: AssetModel_ctor_def)
  have i: "model_inv ?c0 ?n0 s' w'"
    using AssetModel_load_inv[OF load model_inv_fresh] .
  have pd: "m_parentdir s' = dirname path"
  proof -
    obtain r1 s1 w1 where l: "load_model T ?s w = (r1, s1, w1)" by (metis prod_cases3)
    from load_model_props[OF l] have "m_parentdir s1 = dirname path"
      by (simp add: grows_def s0)
    moreover from load l s0(1) have "s' = s1\<lparr>m_loaded := True\<rparr>"
      by (cases r1) (simp_all add: AssetModel_load_def)
    ultimately show ?thesis by simp
  qed
  have b: "list_all2 (built scene s') (m_meshes s') (preorder root)"
    using AssetModel_load_built[OF load s0(1) _ root] scene s0 by simp
  have ok: "cache_ok s' w'" and own: "all_cached ?n0 s' w'" and lds: "loads_ok ?c0 ?n0 w'"
    using i by (simp_all add: model_inv_def)
  have tex: "list_all2 (cached s') (m_textures (m_meshes s' ! k))
               (mesh_texture_paths scene (mMeshes scene ! (preorder root ! k)))"
    if "k < length (preorder root)" for k
    using list_all2_nthD2[OF b that] by (simp add: built_def)
  from cached_in_textures[OF tex[OF k1]] m1 q1
  obtain p where p1: "p \<in> set (m_textures (m_meshes s' ! k1))" and c: "cached s' p q"
    by (auto simp: mesh_texture_paths_def)
  from cached_in_textures[OF tex[OF k2]] m2 q2
  obtain p2 where p2: "p2 \<in> set (m_textures (m_meshes s' ! k2))" and c2: "cached s' p2 q"
    by (auto simp: mesh_texture_paths_def)
  from c c2 have same: "p2 = p" by (simp add: cached_def)
  have cq: "m_loaded_textures s' q = Some p" using c by (simp add: cached_def)
  have lo: "?n0 \<le> p" using own cq unfolding all_cached_def by blast
  have hi: "p < length (heap w')" and mp: "m_path (heap w' ! p) = join (dirname path) q"
    using ok cq pd unfolding cache_ok_def by auto
  have uniq: "p' = p"
    if "?n0 \<le> p' \<and> p' < length (heap w') \<and> m_path (heap w' ! p') = join (dirname path) q" for p'
    using created_unique[OF i _ _ lo hi, of p'] that mp by simp
  have inmesh: "p' = p"
    if mesh: "mesh \<in> set (m_meshes s')" and p': "p' \<in> set (m_textures mesh)"
      and eq: "m_path (heap w' ! p') = join (dirname path) q" for mesh p'
  proof -
    from mesh obtain j where j: "j < length (m_meshes s')" "mesh = m_meshes s' ! j"
      by (auto simp: in_set_conv_nth)
    from b j have "j < length (preorder root)" by (simp add: list_all2_lengthD)
    from textures_are_cached[OF tex[OF this]] p' j obtain q' where "cached s' p' q'" by auto
    then have cq': "m_loaded_textures s' q' = Some p'" by (simp add: cached_def)
    with ok pd have "m_path (heap w' ! p') = join (dirname path) q'"
      unfolding cache_ok_def by auto
    with eq have "q' = q" by simp
    with cq' cq show ?thesis by simp
  qed
  have dist: "distinct (map m_path (drop ?n0 (heap w')))"
    using created_distinct[OF i] .
  have "heap w' ! p = drop ?n0 (heap w') ! (p - ?n0)" using lo hi by simp
  moreover have "p - ?n0 < length (drop ?n0 (heap w'))" using lo hi by simp
  ultimately have "heap w' ! p \<in> set (drop ?n0 (heap w'))"
    by (metis nth_mem)
  then have "join (dirname path) q \<in> set (map m_path (drop ?n0 (heap w')))"
    using mp by force
  with dist lds have cnt:
    "count_list (image_loads (drop ?c0 (calls w'))) (join (dirname path) q) = 1"
    by (simp add: loads_ok_def count_list_distinct)
  have p2': "p \<in> set (m_textures (m_meshes s' ! k2))" using p2 same by simp
  show ?thesis
  proof (intro exI[of _ p] conjI)
    show "\<forall>p'. length (heap w) \<le> p' \<and> p' < length (heap w') \<and>
                 m_path (heap w' ! p') = join (dirname path) q \<longrightarrow> p' = p"
      using uniq by blast
    show "\<forall>mesh \<in> set (m_meshes s'). \<forall>p' \<in> set (m_textures mesh).
                 m_path (heap w' ! p') = join (dirname path) q \<longrightarrow> p' = p"
      using inmesh by blast
  qed (fact cq p1 p2' lo hi mp cnt dist)+
qed

section \<open>RawModel\<close>

lemma RawModel_textures_props:
  assumes "RawModel_textures T paths textures w = (Inr ts, w')"
  shows "ts = textures @ [length (heap w)..<length (heap w) + length paths] \<and>
         (\<exists>new. heap w' = heap w @ new \<and> map m_path new = paths) \<and>
         (\<exists>cs. calls w' = calls w @ cs \<and> image_loads cs = paths)"
  using assms
proof (induction paths arbitrary: textures w)
  case Nil
  then show ?case by simp
next
  case (Cons path paths)
  let ?t = "Texture2D_ctor path [] (indeterminate w)"
  define w2 where "w2 = instance_load (length (heap w)) (w\<lparr>heap := heap w @ [?t]\<rparr>)"
  from Cons.prems have nr: "\<not> texture_raises T path"
    by (auto split: if_splits)
  with Cons.prems have run: "RawModel_textures T paths (textures @ [length (heap w)]) w2 = (Inr ts, w')"
    by (simp add: make_shared_def w2_def)
  note IH = Cons.IH[OF run]
  have hp: "heap w2 = heap w @ [?t\<lparr>m_handle := Suc (fresh w)\<rparr>]"
    unfolding w2_def by (rule created_heap)
  obtain cs where cs: "calls w2 = calls w @ cs" "image_loads cs = [path]"
    using created_calls[of w ?t] unfolding w2_def by auto
  have "[length (heap w)..<length (heap w) + length (path # paths)] =
          length (heap w) # [Suc (length (heap w))..<Suc (length (heap w)) + length paths]"
    by (simp add: upt_conv_Cons del: upt_Suc)
  then have 1: "ts = textures @ [length (heap w)..<length (heap w) + length (path # paths)]"
    using IH by (simp add: hp del: upt_Suc)
  from IH obtain new where new: "heap w' = heap w2 @ new" "map m_path new = paths" by blast
  have 2: "\<exists>new. heap w' = heap w @ new \<and> map m_path new = path # paths"
    using new by (intro exI[of _ "?t\<lparr>m_handle := Suc (fresh w)\<rparr> # new"]) (simp add: hp)
  from IH obtain cs' where cs': "calls w' = calls w2 @ cs'" "image_loads cs' = paths" by blast
  have 3: "\<exists>cs. calls w' = calls w @ cs \<and> image_loads cs = path # paths"
    using cs cs' by (intro exI[of _ "cs @ cs'"]) simp
  from 1 2 3 show ?case by blast
qed

section \<open>The example inputs, evaluated\<close>

lemmas ex_defs = brick_def wall_def triangle_def quad_def house_def house_root_def flat_def
  disk_def world0_def

lemmas run_defs = AssetModel_load_def load_model_def AssetModel_ctor_def process_mesh_def
  collect_textures_def load_textures_def collect_vertices_def collect_indices_def
  Mesh_ctor_def make_shared_def instance_load_def Texture2D_load_def Texture2D_ctor_def
  glGen_def emit_def join_def default_args_def AI_SCENE_FLAGS_INCOMPLETE_def
  dirname_def find_last_of_def path_delims_def PATH_SEPARATOR_def
  Let_def split_def

lemma house_load_ok: "fst house_load = None"
  by (simp add: house_load_def run_defs ex_defs)


lemma flat_load_result:
  "fst flat_load = None \<and> heap (snd (snd flat_load)) = [] \<and>
   map m_textures (m_meshes (fst (snd flat_load))) = [[], []]"
  by (simp add: flat_load_def run_defs ex_defs)

lemma triangle_mesh_eq:
  "triangle_mesh = \<lparr>m_vao = 1, m_vbo = 2, m_ebo = 3, m_vertex_count = 3, m_index_count = 3,
     m_textures = []\<rparr>"
  by (simp add: triangle_mesh_def run_defs ex_defs)

lemma raw_quad_ok: "\<exists>model. fst raw_quad = Inr model"
  by (simp add: raw_quad_def raw_args_def RawModel_ctor_def run_defs ex_defs)

section \<open>The claims\<close>

subsection \<open>C1: attribute offsets and stride\<close>

text \<open>
  Claim C1, as amended. For every vertex layout whose attributes are measured (the
  installer's \<open>sizeof(TAttribute::type)\<close> is the byte size of the component type, as for
  the 4-byte types of all attributes of the repository), the installer issues, for the
  attribute at each layout position in turn, one \<open>glVertexAttribPointer\<close> and one
  \<open>glEnableVertexAttribArray\<close>; the offset of the first attribute is 0 and the offset
  of every other one is the sum of the sizes of the attributes before it, the size of an
  attribute being its component count times the byte size of its component type; every
  attribute is passed the same stride, which is \<open>sizeof(TVertex)\<close>. The stride is the sum
  of the attribute sizes for the vertex classes whose \<open>sizeof\<close> is that sum.
\<close>

theorem add_each_layout:
  "\<forall>a \<in> set (attributes V). measured a \<Longrightarrow>
   add_each V = packed_layout (sizeof_TVertex V) (attributes V) \<and>
   (sizeof_TVertex V = layout_size (attributes V) \<longrightarrow>
      add_each V = packed_layout (layout_size (attributes V)) (attributes V))"
  by (simp add: add_each_packed)

text \<open>\<open>DefaultVertex\<close> is such a class: 12 + 12 + 8 = 32 bytes.\<close>

theorem add_each_layout_witness:
  "attributes DefaultVertex = [Position, Normal, TextureCoordinate] \<and>
   measured Position \<and> measured Normal \<and> measured TextureCoordinate \<and>
   sizeof_TVertex DefaultVertex = layout_size (attributes DefaultVertex) \<and>
   add_each DefaultVertex =
     [glVertexAttribPointer 0 3 GL_FLOAT False 32 0, glEnableVertexAttribArray 0,
      glVertexAttribPointer 1 3 GL_FLOAT False 32 12, glEnableVertexAttribArray 1,
      glVertexAttribPointer 2 2 GL_FLOAT False 32 24, glEnableVertexAttribArray 2]"
proof -
  have m: "\<forall>a \<in> set (attributes DefaultVertex). measured a"
    by (simp add: DefaultVertex_def measured_def component_byte_size_float Position_def
        Normal_def TextureCoordinate_def)
  have h: "sizeof_TVertex DefaultVertex = layout_size (attributes DefaultVertex)"
    by (simp add: DefaultVertex_def layout_size_def attribute_size_def component_byte_size_float
        Position_def Normal_def TextureCoordinate_def)
  from add_each_layout[OF m] h
  have "add_each DefaultVertex =
          packed_layout (layout_size (attributes DefaultVertex)) (attributes DefaultVertex)"
    by blast
  then show ?thesis
    using m h
    by (simp add: packed_layout_def DefaultVertex_def layout_size_def attribute_size_def
        measured_def
        component_byte_size_float Position_def Normal_def TextureCoordinate_def GL_FALSE_def
        upt_conv_Cons)
qed

text \<open>
  The claim as stated fails on the padded vertex class, whose attributes are measured:
  the stride passed is 28, the size of the class, and the attribute sizes add up to 24.
\<close>

theorem add_each_stride_counterexample:
  "measured Position \<and> measured PaddedNormal \<and>
   add_each PaddedVertex =
     [glVertexAttribPointer 0 3 GL_FLOAT False 28 0, glEnableVertexAttribArray 0,
      glVertexAttribPointer 1 3 GL_FLOAT False 28 12, glEnableVertexAttribArray 1] \<and>
   layout_size (attributes PaddedVertex) = 24 \<and>
   add_each PaddedVertex \<noteq>
     packed_layout (layout_size (attributes PaddedVertex)) (attributes PaddedVertex)"
  by (simp add: add_each_def packed_layout_def layout_size_def attribute_size_def measured_def
      component_byte_size_float PaddedVertex_def PaddedNormal_def Position_def
      VertexAttributeInstaller_def data_size_def GL_FALSE_def upt_conv_Cons)

subsection \<open>C2: one texture per path\<close>

text \<open>
  Claim C2, as amended. For every load of a new AssetModel, whether it succeeds or
  raises, no two texture objects created by the load have the same path, and the images
  decoded by the load are the paths of the objects created, one decoding for each
  object in order. If the load succeeds and two sub-meshes at different places of the
  traversal have a material index greater than 0 and materials that both hold the
  texture path \<open>q\<close> in a diffuse or specular slot, then the cache holds one pointer for
  \<open>q\<close>, both resulting meshes hold that pointer, it is the only texture object created
  by the load whose path is the resolved \<open>q\<close>, no mesh of the model holds another object
  of that path, and the image is decoded exactly once.
\<close>

theorem texture_shared_once:
  assumes load: "AssetModel_load T (AssetModel_ctor path) w = (r, s', w')"
  shows "distinct (map m_path (drop (length (heap w)) (heap w'))) \<and>
         image_loads (drop (length (calls w)) (calls w'))
           = map m_path (drop (length (heap w)) (heap w')) \<and>
         (\<forall>scene root k1 k2 q.
            r = None \<and> ReadFile w path = Some scene \<and> mRootNode scene = Some root \<and>
            k1 < length (preorder root) \<and> k2 < length (preorder root) \<and> k1 \<noteq> k2 \<and>
            0 < mMaterialIndex (mMeshes scene ! (preorder root ! k1)) \<and>
            0 < mMaterialIndex (mMeshes scene ! (preorder root ! k2)) \<and>
            q \<in> set (material_paths scene (mMeshes scene ! (preorder root ! k1))) \<and>
            q \<in> set (material_paths scene (mMeshes scene ! (preorder root ! k2))) \<longrightarrow>
            (\<exists>p. m_loaded_textures s' q = Some p \<and>
               p \<in> set (m_textures (m_meshes s' ! k1)) \<and>
               p \<in> set (m_textures (m_meshes s' ! k2)) \<and>
               length (heap w) \<le> p \<and> p < length (heap w') \<and>
               m_path (heap w' ! p) = join (dirname path) q \<and>
               (\<forall>p'. length (heap w) \<le> p' \<and> p' < length (heap w') \<and>
                     m_path (heap w' ! p') = join (dirname path) q \<longrightarrow> p' = p) \<and>
               (\<forall>mesh \<in> set (m_meshes s'). \<forall>p' \<in> set (m_textures mesh).
                     m_path (heap w' ! p') = join (dirname path) q \<longrightarrow> p' = p) \<and>
               count_list (image_loads (drop (length (calls w)) (calls w')))
                 (join (dirname path) q) = 1))"
proof -
  have i: "model_inv (length (calls w)) (length (heap w)) s' w'"
    using AssetModel_load_inv[OF load model_inv_fresh] .
  have 1: "distinct (map m_path (drop (length (heap w)) (heap w')))"
    using created_distinct[OF i] .
  have 2: "image_loads (drop (length (calls w)) (calls w'))
             = map m_path (drop (length (heap w)) (heap w'))"
    using i by (simp add: model_inv_def loads_ok_def)
  have 3: "\<exists>p. m_loaded_textures s' q = Some p \<and>
               p \<in> set (m_textures (m_meshes s' ! k1)) \<and>
               p \<in> set (m_textures (m_meshes s' ! k2)) \<and>
               length (heap w) \<le> p \<and> p < length (heap w') \<and>
               m_path (heap w' ! p) = join (dirname path) q \<and>
               (\<forall>p'. length (heap w) \<le> p' \<and> p' < length (heap w') \<and>
                     m_path (heap w' ! p') = join (dirname path) q \<longrightarrow> p' = p) \<and>
               (\<forall>mesh \<in> set (m_meshes s'). \<forall>p' \<in> set (m_textures mesh).
                     m_path (heap w' ! p') = join (dirname path) q \<longrightarrow> p' = p) \<and>
               count_list (image_loads (drop (length (calls w)) (calls w')))
                 (join (dirname path) q) = 1"
    if "r = None \<and> ReadFile w path = Some scene \<and> mRootNode scene = Some root \<and>
        k1 < length (preorder root) \<and> k2 < length (preorder root) \<and> k1 \<noteq> k2 \<and>
        0 < mMaterialIndex (mMeshes scene ! (preorder root ! k1)) \<and>
        0 < mMaterialIndex (mMeshes scene ! (preorder root ! k2)) \<and>
        q \<in> set (material_paths scene (mMeshes scene ! (preorder root ! k1))) \<and>
        q \<in> set (material_paths scene (mMeshes scene ! (preorder root ! k2)))"
    for scene root k1 k2 q
  proof -
    from that load have l: "AssetModel_load T (AssetModel_ctor path) w = (None, s', w')"
      by simp
    from that have h: "ReadFile w path = Some scene" "mRootNode scene = Some root"
      "k1 < length (preorder root)" "k2 < length (preorder root)" "k1 \<noteq> k2"
      "0 < mMaterialIndex (mMeshes scene ! (preorder root ! k1))"
      "0 < mMaterialIndex (mMeshes scene ! (preorder root ! k2))"
      "q \<in> set (material_paths scene (mMeshes scene ! (preorder root ! k1)))"
      "q \<in> set (material_paths scene (mMeshes scene ! (preorder root ! k2)))"
      by simp_all
    from shared_texture_instance[OF l h] obtain p where
      "m_loaded_textures s' q = Some p \<and>
       p \<in> set (m_textures (m_meshes s' ! k1)) \<and>
       p \<in> set (m_textures (m_meshes s' ! k2)) \<and>
       length (heap w) \<le> p \<and> p < length (heap w') \<and>
       m_path (heap w' ! p) = join (dirname path) q \<and>
       (\<forall>p'. length (heap w) \<le> p' \<and> p' < length (heap w') \<and>
             m_path (heap w' ! p') = join (dirname path) q \<longrightarrow> p' = p) \<and>
       (\<forall>mesh \<in> set (m_meshes s'). \<forall>p' \<in> set (m_textures mesh).
             m_path (heap w' ! p') = join (dirname path) q \<longrightarrow> p' = p) \<and>
       count_list (image_loads (drop (length (calls w)) (calls w')))
         (join (dirname path) q) = 1 \<and>
       distinct (map m_path (drop (length (heap w)) (heap w')))"
      by (elim exE)
    then show ?thesis by (intro exI[of _ p]) simp
  qed
  show ?thesis
  proof (intro conjI allI impI)
    show "distinct (map m_path (drop (length (heap w)) (heap w')))" by (fact 1)
    show "image_loads (drop (length (calls w)) (calls w'))
            = map m_path (drop (length (heap w)) (heap w'))" by (fact 2)
  next
    fix scene root k1 k2 q
    assume a: "r = None \<and> ReadFile w path = Some scene \<and> mRootNode scene = Some root \<and>
        k1 < length (preorder root) \<and> k2 < length (preorder root) \<and> k1 \<noteq> k2 \<and>
        0 < mMaterialIndex (mMeshes scene ! (preorder root ! k1)) \<and>
        0 < mMaterialIndex (mMeshes scene ! (preorder root ! k2)) \<and>
        q \<in> set (material_paths scene (mMeshes scene ! (preorder root ! k1))) \<and>
        q \<in> set (material_paths scene (mMeshes scene ! (preorder root ! k2)))"
    show "\<exists>p. m_loaded_textures s' q = Some p \<and>
               p \<in> set (m_textures (m_meshes s' ! k1)) \<and>
               p \<in> set (m_textures (m_meshes s' ! k2)) \<and>
               length (heap w) \<le> p \<and> p < length (heap w') \<and>
               m_path (heap w' ! p) = join (dirname path) q \<and>
               (\<forall>p'. length (heap w) \<le> p' \<and> p' < length (heap w') \<and>
                     m_path (heap w' ! p') = join (dirname path) q \<longrightarrow> p' = p) \<and>
               (\<forall>mesh \<in> set (m_meshes s'). \<forall>p' \<in> set (m_textures mesh).
                     m_path (heap w' ! p') = join (dirname path) q \<longrightarrow> p' = p) \<and>
               count_list (image_loads (drop (length (calls w)) (calls w')))
                 (join (dirname path) q) = 1"
      using 3[OF a] .
  qed
qed

text \<open>In the example scene the second and the third sub-mesh share \<open>wall.png\<close>.\<close>

theorem texture_shared_once_witness:
  "map m_path (heap (snd (snd house_load))) = image_loads (calls (snd (snd house_load))) \<and>
   distinct (image_loads (calls (snd (snd house_load)))) \<and>
   (\<exists>p. m_loaded_textures (fst (snd house_load)) ''wall.png'' = Some p \<and>
       p \<in> set (m_textures (m_meshes (fst (snd house_load)) ! 1)) \<and>
       p \<in> set (m_textures (m_meshes (fst (snd house_load)) ! 2)) \<and>
       m_path (heap (snd (snd house_load)) ! p) = ''m/wall.png'' \<and>
       count_list (image_loads (calls (snd (snd house_load)))) ''m/wall.png'' = 1)"
proof -
  have l: "AssetModel_load default_args (AssetModel_ctor ''m/house.obj'') world0
             = (None, fst (snd house_load), snd (snd house_load))"
    using house_load_ok by (simp add: house_load_def prod_eq_iff)
  have rf: "ReadFile world0 ''m/house.obj'' = Some house"
    by (simp add: world0_def disk_def)
  have rt: "mRootNode house = Some house_root"
    by (simp add: house_def)
  have pre: "preorder house_root = [0, 1, 2]"
    by (simp add: house_root_def)
  have k1: "1 < length (preorder house_root)" and k2: "2 < length (preorder house_root)"
    and ne: "(1::nat) \<noteq> 2"
    by (simp_all add: pre)
  have m1: "0 < mMaterialIndex (mMeshes house ! (preorder house_root ! 1))"
    and m2: "0 < mMaterialIndex (mMeshes house ! (preorder house_root ! 2))"
    by (simp_all add: pre house_def quad_def triangle_def)
  have q1: "''wall.png'' \<in> set (material_paths house (mMeshes house ! (preorder house_root ! 1)))"
    and q2: "''wall.png'' \<in> set (material_paths house (mMeshes house ! (preorder house_root ! 2)))"
    by (simp_all add: pre house_def quad_def triangle_def material_paths_def wall_def)
  have d: "join (dirname ''m/house.obj'') ''wall.png'' = ''m/wall.png''"
    by (simp add: join_def dirname_def find_last_of_def path_delims_def PATH_SEPARATOR_def)
  have z: "length (heap world0) = 0" "length (calls world0) = 0"
    by (simp_all add: world0_def)
  note t = texture_shared_once[OF l, unfolded z drop_0]
  from t have a: "distinct (map m_path (heap (snd (snd house_load))))"
    and b: "image_loads (calls (snd (snd house_load))) = map m_path (heap (snd (snd house_load)))"
    by simp_all
  from t have "\<forall>scene root k1 k2 q.
      None = (None :: exn option) \<and> ReadFile world0 ''m/house.obj'' = Some scene \<and>
      mRootNode scene = Some root \<and>
      k1 < length (preorder root) \<and> k2 < length (preorder root) \<and> k1 \<noteq> k2 \<and>
      0 < mMaterialIndex (mMeshes scene ! (preorder root ! k1)) \<and>
      0 < mMaterialIndex (mMeshes scene ! (preorder root ! k2)) \<and>
      q \<in> set (material_paths scene (mMeshes scene ! (preorder root ! k1))) \<and>
      q \<in> set (material_paths scene (mMeshes scene ! (preorder root ! k2))) \<longrightarrow>
      (\<exists>p. m_loaded_textures (fst (snd house_load)) q = Some p \<and>
         p \<in> set (m_textures (m_meshes (fst (snd house_load)) ! k1)) \<and>
         p \<in> set (m_textures (m_meshes (fst (snd house_load)) ! k2)) \<and>
         0 \<le> p \<and> p < length (heap (snd (snd house_load))) \<and>
         m_path (heap (snd (snd house_load)) ! p) = join (dirname ''m/house.obj'') q \<and>
         (\<forall>p'. 0 \<le> p' \<and> p' < length (heap (snd (snd house_load))) \<and>
               m_path (heap (snd (snd house_load)) ! p') = join (dirname ''m/house.obj'') q
               \<longrightarrow> p' = p) \<and>
         (\<forall>mesh \<in> set (m_meshes (fst (snd house_load))). \<forall>p' \<in> set (m_textures mesh).
               m_path (heap (snd (snd house_load)) ! p') = join (dirname ''m/house.obj'') q
               \<longrightarrow> p' = p) \<and>
         count_list (image_loads (calls (snd (snd house_load))))
           (join (dirname ''m/house.obj'') q) = 1)"
    by blast
  from this[rule_format, of house house_root 1 2 "''wall.png''"] rf rt k1 k2 ne m1 m2 q1 q2
  obtain p where "m_loaded_textures (fst (snd house_load)) ''wall.png'' = Some p"
    "p \<in> set (m_textures (m_meshes (fst (snd house_load)) ! 1))"
    "p \<in> set (m_textures (m_meshes (fst (snd house_load)) ! 2))"
    "m_path (heap (snd (snd house_load)) ! p) = ''m/wall.png''"
    "count_list (image_loads (calls (snd (snd house_load)))) ''m/wall.png'' = 1"
    unfolding d by blast
  with a b show ?thesis by auto
qed

text \<open>
  The claim as stated fails on the scene whose two sub-meshes use the material at index
  0: both refer to \<open>wall.png\<close> through it, the load succeeds, and no texture object is
  created at all.
\<close>

theorem texture_slot0_counterexample:
  "''wall.png'' \<in> set (material_paths flat (mMeshes flat ! 0)) \<and>
   ''wall.png'' \<in> set (material_paths flat (mMeshes flat ! 1)) \<and>
   fst flat_load = None \<and> heap (snd (snd flat_load)) = [] \<and>
   map m_textures (m_meshes (fst (snd flat_load))) = [[], []]"
  using flat_load_result
  by (simp add: material_paths_def flat_def triangle_def quad_def wall_def)

subsection \<open>C3: a failure during the load\<close>




subsection \<open>C4: load is idempotent\<close>

text \<open>
  Claim C4. For every AssetModel on which \<open>load\<close> has succeeded, the loaded flag is set
  and a second \<open>load\<close>, in whatever world, returns without an error and leaves the model,
  its mesh list included, and the world as they are: no traversal, no device call and no
  texture load happens again.
\<close>

theorem load_idempotent:
  "AssetModel_load T s w = (None, s', w') \<Longrightarrow>
     m_loaded s' \<and> AssetModel_load T s' w2 = (None, s', w2) \<and>
     m_meshes (fst (snd (AssetModel_load T s' w2))) = m_meshes s' \<and>
     issued (\<lambda>w. snd (snd (AssetModel_load T s' w))) w2 = []"
  by (auto simp: AssetModel_load_def issued_def split: if_splits prod.splits option.splits)

theorem load_idempotent_witness:
  "m_loaded (fst (snd house_load)) \<and>
   AssetModel_load default_args (fst (snd house_load)) (snd (snd house_load))
     = (None, fst (snd house_load), snd (snd house_load))"
proof -
  have l: "AssetModel_load default_args (AssetModel_ctor ''m/house.obj'') world0
             = (None, fst (snd house_load), snd (snd house_load))"
    using house_load_ok by (simp add: house_load_def prod_eq_iff)
  from load_idempotent[OF l, of "snd (snd house_load)"] show ?thesis by simp
qed

subsection \<open>C5: traversal order\<close>

text \<open>
  Claim C5, as amended. For every load that succeeds on a model not yet loaded, the
  traversal of the node tree processes the sub-meshes in the order of the pre-order walk
  (the meshes of a node in index order, then each child's subtree in index order), and
  the load appends to the mesh list one mesh per sub-mesh of that walk, in that order,
  each built from its sub-mesh; the meshes the list held before the load stay in front.
  So the mesh list is the pre-order walk of the node tree when it was empty before
  the load, as it is for a new model.
\<close>

theorem load_preorder:
  assumes "AssetModel_load T s w = (None, s', w')" and "\<not> m_loaded s"
    and "ReadFile w (m_path_model s) = Some scene" and "mRootNode scene = Some root"
  shows "process_node T root scene s w = process_node_meshes T (preorder root) scene s w \<and>
         take (length (m_meshes s)) (m_meshes s') = m_meshes s \<and>
         list_all2 (built scene s') (drop (length (m_meshes s)) (m_meshes s')) (preorder root) \<and>
         (m_meshes s = [] \<longrightarrow> list_all2 (built scene s') (m_meshes s') (preorder root))"
  using AssetModel_load_built[OF assms] by auto

text \<open>A root with two meshes and one child with one mesh: root mesh 0, root mesh 1, child
  mesh 0.\<close>

theorem load_preorder_witness:
  "preorder house_root = [0, 1, 2] \<and>
   list_all2 (built house (fst (snd house_load))) (m_meshes (fst (snd house_load))) [0, 1, 2] \<and>
   map m_vertex_count (m_meshes (fst (snd house_load))) = [3, 4, 3]"
proof -
  have l: "AssetModel_load default_args (AssetModel_ctor ''m/house.obj'') world0
             = (None, fst (snd house_load), snd (snd house_load))"
    using house_load_ok by (simp add: house_load_def prod_eq_iff)
  have nl: "\<not> m_loaded (AssetModel_ctor ''m/house.obj'')"
    by (simp add: AssetModel_ctor_def)
  have rf: "ReadFile world0 (m_path_model (AssetModel_ctor ''m/house.obj'')) = Some house"
    by (simp add: world0_def disk_def AssetModel_ctor_def)
  have rt: "mRootNode house = Some house_root"
    by (simp add: house_def)
  have pre: "preorder house_root = [0, 1, 2]"
    by (simp add: house_root_def)
  from load_preorder[OF l nl rf rt]
  have b: "list_all2 (built house (fst (snd house_load))) (m_meshes (fst (snd house_load))) [0, 1, 2]"
    by (simp add: pre AssetModel_ctor_def)
  then have "map m_vertex_count (m_meshes (fst (snd house_load))) = [3, 4, 3]"
    by (auto simp: list_all2_Cons2 built_def house_def triangle_def quad_def)
  with b pre show ?thesis by simp
qed

text \<open>
  The claim as stated fails when the load is tried again after a load that raised during
  the traversal: the model is not loaded, the load succeeds, and the mesh list holds
  four meshes for the three sub-meshes of the walk, the first being the mesh the failed
  load left.
\<close>

theorem load_preorder_retry_counterexample:
  "\<not> m_loaded (fst (snd house_fail)) \<and>
   ReadFile (snd (snd house_fail)) (m_path_model (fst (snd house_fail))) = Some house \<and>
   mRootNode house = Some house_root \<and>
   preorder house_root = [0, 1, 2] \<and>
   map mNumVertices (mMeshes house) = [3, 4, 3] \<and>
   fst house_retry = None \<and>
   map m_vertex_count (m_meshes (fst (snd house_retry))) = [3, 3, 4, 3]"
  by (simp add: house_retry_def house_fail_def failing_args_def run_defs ex_defs)

subsection \<open>C6: render needs a loaded model\<close>

text \<open>
  Claim C6. For every AssetModel that is not loaded, \<open>render\<close> raises the model error
  with the path of the model and the message of a model not loaded, and issues no device
  call, so no draw call. For every loaded AssetModel, \<open>render\<close> raises nothing and the
  calls it issues are those of rendering each mesh with the program given, in the order
  of the mesh list.
\<close>

theorem render_requires_loaded:
  "(\<not> m_loaded s \<longrightarrow>
      AssetModel_render s program w =
        (Some (model_error (m_path_model s) ''Model not loaded before rendering.''), w) \<and>
      issued (\<lambda>w. snd (AssetModel_render s program w)) w = []) \<and>
   (m_loaded s \<longrightarrow>
      fst (AssetModel_render s program w) = None \<and>
      issued (\<lambda>w. snd (AssetModel_render s program w)) w =
        concat (map (\<lambda>mesh. issued (Mesh_render mesh program) w) (m_meshes s)))"
  by (simp add: AssetModel_render_def issued_def foldl_Mesh_render
      issued_Mesh_render[unfolded issued_def])

theorem render_requires_loaded_witness:
  "AssetModel_render (AssetModel_ctor ''m/house.obj'') 7 world0 =
     (Some (model_error ''m/house.obj'' ''Model not loaded before rendering.''), world0) \<and>
   fst (AssetModel_render two_meshes 7 world0) = None \<and>
   filter is_draw (issued (\<lambda>w. snd (AssetModel_render two_meshes 7 w)) world0) =
     [glDrawElements GL_TRIANGLES 3 GL_UNSIGNED_INT, glDrawArrays GL_TRIANGLES 0 3]"
proof -
  have nl: "\<not> m_loaded (AssetModel_ctor ''m/house.obj'')"
    and pm: "m_path_model (AssetModel_ctor ''m/house.obj'') = ''m/house.obj''"
    by (simp_all add: AssetModel_ctor_def)
  have ld: "m_loaded two_meshes" and ms: "m_meshes two_meshes = [triangle_mesh, soup_mesh]"
    by (simp_all add: two_meshes_def)
  have dr: "filter is_draw (issued (Mesh_render triangle_mesh 7) world0) =
              [glDrawElements GL_TRIANGLES 3 GL_UNSIGNED_INT]"
    "filter is_draw (issued (Mesh_render soup_mesh 7) world0) = [glDrawArrays GL_TRIANGLES 0 3]"
    by (simp_all add: issued_Mesh_render filter_draw_render_calls triangle_mesh_def
        soup_mesh_def Mesh_ctor_mesh to_GLsizei_small)
  from render_requires_loaded[of "AssetModel_ctor ''m/house.obj''" 7 world0] nl pm
    render_requires_loaded[of two_meshes 7 world0] ld ms dr
  show ?thesis by simp
qed

subsection \<open>C7: the draw call of a mesh\<close>

text \<open>
  Claim C7, as amended. For every Mesh, \<open>render\<close> issues one draw call: when the Mesh
  was constructed with a non-empty index array, an indexed draw of triangles whose
  count is the length of the index array converted to \<open>GLsizei\<close>; when it was
  constructed with an empty index array, a non-indexed draw of triangles whose count is
  the length of the vertex array converted to \<open>GLsizei\<close>. The count equals the length of
  the array for every array of fewer than \<open>2^31\<close> elements.
\<close>

theorem mesh_draw_count:
  "Mesh_ctor T vertices indices textures w0 = (mesh, w1) \<Longrightarrow>
   filter is_draw (issued (Mesh_render mesh program) w) =
     (if indices \<noteq> []
      then [glDrawElements GL_TRIANGLES (to_GLsizei (length indices)) GL_UNSIGNED_INT]
      else [glDrawArrays GL_TRIANGLES 0 (to_GLsizei (length vertices))]) \<and>
   (indices \<noteq> [] \<and> length indices < 2 ^ 31 \<longrightarrow>
      filter is_draw (issued (Mesh_render mesh program) w) =
        [glDrawElements GL_TRIANGLES (int (length indices)) GL_UNSIGNED_INT]) \<and>
   (indices = [] \<and> length vertices < 2 ^ 31 \<longrightarrow>
      filter is_draw (issued (Mesh_render mesh program) w) =
        [glDrawArrays GL_TRIANGLES 0 (int (length vertices))])"
  using Mesh_ctor_mesh(1,2)[of T vertices indices textures w0]
  by (auto simp: issued_Mesh_render filter_draw_render_calls to_GLsizei_small)

theorem mesh_draw_count_witness:
  "filter is_draw (issued (Mesh_render triangle_mesh 7) world0) =
     [glDrawElements GL_TRIANGLES 3 GL_UNSIGNED_INT] \<and>
   filter is_draw (issued (Mesh_render soup_mesh 7) world0) = [glDrawArrays GL_TRIANGLES 0 3]"
proof -
  have 1: "Mesh_ctor default_args [Vertex (triangle 0) 0, Vertex (triangle 0) 1,
             Vertex (triangle 0) 2] [0, 1, 2] [] world0
           = (triangle_mesh, snd (Mesh_ctor default_args [Vertex (triangle 0) 0,
                Vertex (triangle 0) 1, Vertex (triangle 0) 2] [0, 1, 2] [] world0))"
    by (simp add: triangle_mesh_def)
  have 2: "Mesh_ctor default_args [Vertex (triangle 0) 0, Vertex (triangle 0) 1,
             Vertex (triangle 0) 2] [] [] world0
           = (soup_mesh, snd (Mesh_ctor default_args [Vertex (triangle 0) 0,
                Vertex (triangle 0) 1, Vertex (triangle 0) 2] [] [] world0))"
    by (simp add: soup_mesh_def)
  from mesh_draw_count[OF 1, of 7 world0] mesh_draw_count[OF 2, of 7 world0]
  show ?thesis by (simp add: to_GLsizei_small)
qed

text \<open>
  The claim as stated fails on a mesh of \<open>2^31\<close> indices: the count of the draw call is
  \<open>- 2^31\<close>, not the length of the index array.
\<close>

theorem mesh_draw_count_counterexample:
  "length huge_indices = 2147483648 \<and>
   filter is_draw (issued (Mesh_render huge_mesh 7) world0) =
     [glDrawElements GL_TRIANGLES (- 2147483648) GL_UNSIGNED_INT]"
proof -
  have n: "length huge_indices = 2147483648"
    by (simp add: huge_indices_def)
  have "m_index_count huge_mesh = 2147483648"
    by (simp add: huge_mesh_def Mesh_ctor_mesh n)
  moreover have "to_GLsizei 2147483648 = - 2147483648"
    by (simp add: to_GLsizei_def)
  ultimately show ?thesis
    using n by (simp add: issued_Mesh_render filter_draw_render_calls)
qed

subsection \<open>C8: RawModel\<close>

text \<open>
  Claim C8. For every RawModel constructed from vertices, indices and texture paths, the
  model has exactly one Mesh, with the number of vertices as vertex count and the number
  of indices as index count; for each path, in order, one new texture object of that
  path was created and its image loaded, and the mesh holds the pointers to these
  objects, all different even when paths are equal; the model has no cache entry;
  \<open>load\<close> changes nothing; \<open>render\<close> never raises, and renders the one mesh.
\<close>

theorem RawModel_single_mesh:
  assumes "RawModel_ctor T vertices indices texture_paths w = (Inr model, w')"
  shows "(\<exists>mesh. m_meshes_raw model = [mesh] \<and>
            m_vertex_count mesh = length vertices \<and> m_index_count mesh = length indices \<and>
            m_textures mesh = [length (heap w)..<length (heap w) + length texture_paths] \<and>
            snd (RawModel_render model program w2) = Mesh_render mesh program w2) \<and>
         take (length (heap w)) (heap w') = heap w \<and>
         map m_path (drop (length (heap w)) (heap w')) = texture_paths \<and>
         image_loads (drop (length (calls w)) (calls w')) = texture_paths \<and>
         m_loaded_textures_raw model = Map.empty \<and>
         RawModel_load model w2 = (None, model, w2) \<and>
         fst (RawModel_render model program w2) = None"
proof -
  obtain r1 w1 where t: "RawModel_textures T texture_paths [] w = (r1, w1)" by (metis surj_pair)
  with assms obtain ts where r1: "r1 = Inr ts" by (cases r1) (auto simp: RawModel_ctor_def)
  obtain mesh wm where mc: "Mesh_ctor T vertices indices ts w1 = (mesh, wm)" by (metis surj_pair)
  from assms t r1 mc have model: "model = \<lparr>m_meshes_raw = [mesh], m_loaded_textures_raw = Map.empty\<rparr>"
    and w': "w' = wm"
    by (simp_all add: RawModel_ctor_def)
  from RawModel_textures_props[OF t[unfolded r1]]
  obtain new cs where P: "ts = [length (heap w)..<length (heap w) + length texture_paths]"
    "heap w1 = heap w @ new" "map m_path new = texture_paths"
    "calls w1 = calls w @ cs" "image_loads cs = texture_paths"
    by auto
  have flds: "m_vertex_count mesh = length vertices" "m_index_count mesh = length indices"
    "m_textures mesh = ts"
    using Mesh_ctor_mesh[of T vertices indices ts w1] mc by simp_all
  have hp: "heap wm = heap w1" using Mesh_ctor_world(1)[of T vertices indices ts w1] mc by simp
  obtain cs' where cs': "calls wm = calls w1 @ cs'" "image_loads cs' = []"
    using Mesh_ctor_calls[of T vertices indices ts w1] mc by auto
  show ?thesis
    using flds P hp cs'
    by (simp add: model w' RawModel_load_def RawModel_render_def)
qed

text \<open>Four vertices, six indices and the same path twice: one mesh, two texture objects.\<close>

theorem RawModel_single_mesh_witness:
  "\<exists>model mesh. fst raw_quad = Inr model \<and> m_meshes_raw model = [mesh] \<and>
     m_vertex_count mesh = 4 \<and> m_index_count mesh = 6 \<and> m_textures mesh = [0, 1] \<and>
     map m_path (heap (snd raw_quad)) = [''a.png'', ''a.png''] \<and>
     image_loads (calls (snd raw_quad)) = [''a.png'', ''a.png'']"
proof -
  from raw_quad_ok obtain model where m: "fst raw_quad = Inr model" by blast
  then have c: "RawModel_ctor raw_args [0, 1, 2, 3 :: nat] [0, 1, 2, 0, 2, 3]
                  [''a.png'', ''a.png''] world0 = (Inr model, snd raw_quad)"
    by (simp add: raw_quad_def prod_eq_iff)
  from RawModel_single_mesh[OF c, of 7 world0] m show ?thesis
    by (auto simp: world0_def upt_conv_Cons)
qed

subsection \<open>C9: moving a mesh\<close>

text \<open>
  Claim C9, as amended. For every Mesh, moving it gives the destination the three
  handles and the texture list of the source; the source keeps its vertex-array,
  vertex-buffer and index-buffer handles unchanged and is left with an empty texture
  list. The destructor issues no device call for the handles of any Mesh, so destroying
  the moved-from Mesh issues no device call and releases no texture.
\<close>

theorem Mesh_move_handles:
  "Mesh_move m = (dst, src) \<Longrightarrow>
     m_vao dst = m_vao m \<and> m_vbo dst = m_vbo m \<and> m_ebo dst = m_ebo m \<and>
     m_textures dst = m_textures m \<and>
     m_vao src = m_vao m \<and> m_vbo src = m_vbo m \<and> m_ebo src = m_ebo m \<and>
     m_textures src = [] \<and>
     Mesh_dtor src = ([], []) \<and> fst (Mesh_dtor dst) = []"
  by (auto simp: Mesh_move_def Mesh_dtor_def)

theorem Mesh_move_handles_witness:
  "m_vao (fst (Mesh_move triangle_mesh)) = 1 \<and> m_vbo (fst (Mesh_move triangle_mesh)) = 2 \<and>
   m_ebo (fst (Mesh_move triangle_mesh)) = 3 \<and>
   Mesh_dtor (snd (Mesh_move triangle_mesh)) = ([], [])"
proof -
  have "Mesh_move triangle_mesh = (fst (Mesh_move triangle_mesh), snd (Mesh_move triangle_mesh))"
    by simp
  from Mesh_move_handles[OF this] show ?thesis
    by (simp add: triangle_mesh_eq)
qed

text \<open>
  The claim as stated fails on the mesh of the example triangle: after the move the
  source still holds the handles 1, 2 and 3, none of them zero.
\<close>

theorem Mesh_move_source_counterexample:
  "m_vao triangle_mesh = 1 \<and> m_vbo triangle_mesh = 2 \<and> m_ebo triangle_mesh = 3 \<and>
   m_vao (snd (Mesh_move triangle_mesh)) = 1 \<and>
   m_vbo (snd (Mesh_move triangle_mesh)) = 2 \<and>
   m_ebo (snd (Mesh_move triangle_mesh)) = 3"
  by (simp add: triangle_mesh_eq Mesh_move_def)

subsection \<open>C10: the material at index 0\<close>

text \<open>
  Claim C10. For every sub-mesh whose material index is 0, the texture collection
  returns the empty list without touching the cache or the world, and the mesh
  processing returns a Mesh with an empty texture list, having created no texture object
  and loaded no image: the material at index 0 is never looked up.
\<close>

theorem material_zero_no_textures:
  "mMaterialIndex raw_mesh = 0 \<Longrightarrow>
     collect_textures T raw_mesh scene s w = (Inr [], s, w) \<and>
     (\<exists>mesh w'. process_mesh T raw_mesh scene s w = (Inr mesh, s, w') \<and>
        m_textures mesh = [] \<and> heap w' = heap w \<and>
        image_loads (drop (length (calls w)) (calls w')) = [])"
proof -
  assume z: "mMaterialIndex raw_mesh = 0"
  obtain mesh w' where
    mc: "Mesh_ctor T (collect_vertices raw_mesh) (collect_indices raw_mesh) [] w = (mesh, w')"
    by (cases "Mesh_ctor T (collect_vertices raw_mesh) (collect_indices raw_mesh) [] w")
  from Mesh_ctor_calls[of T "collect_vertices raw_mesh" "collect_indices raw_mesh" "[]" w] mc
  obtain cs where cs: "calls w' = calls w @ cs" "image_loads cs = []" by auto
  have "process_mesh T raw_mesh scene s w = (Inr mesh, s, w')"
    by (simp add: process_mesh_def collect_textures_zero[OF z] mc)
  moreover have "m_textures mesh = []"
    using Mesh_ctor_mesh(3)[of T "collect_vertices raw_mesh" "collect_indices raw_mesh" "[]" w] mc
    by simp
  moreover have "heap w' = heap w"
    using Mesh_ctor_world(1)[of T "collect_vertices raw_mesh" "collect_indices raw_mesh" "[]" w] mc
    by simp
  moreover have "image_loads (drop (length (calls w)) (calls w')) = []"
    by (simp add: cs)
  ultimately show ?thesis
    using collect_textures_zero[OF z] by blast
qed

theorem material_zero_no_textures_witness:
  "mMaterialIndex (triangle 0) = 0 \<and>
   material_paths flat (triangle 0) = [''wall.png'', ''wall_s.png''] \<and>
   collect_textures default_args (triangle 0) flat (AssetModel_ctor ''m/flat.obj'') world0
     = (Inr [], AssetModel_ctor ''m/flat.obj'', world0)"
proof -
  have z: "mMaterialIndex (triangle 0) = 0"
    by (simp add: triangle_def)
  have "material_paths flat (triangle 0) = [''wall.png'', ''wall_s.png'']"
    by (simp add: material_paths_def flat_def triangle_def wall_def)
  with z material_zero_no_textures[OF z, of default_args flat "AssetModel_ctor ''m/flat.obj''" world0]
  show ?thesis by simp
qed

end
